theory Spec2Isabelle
  imports Main "HOL-Library.Word" "HOL-Library.Char_ord" "HOL-Library.List_Lexorder"
begin

section \<open>The commit-and-submit pipeline of \<open>snapshotter/utils/generic_worker.py\<close>\<close>

text \<open>
  The worker is asynchronous Python. A single commit runs its steps strictly in
  sequence, so one invocation is modelled as a function from the worker's state and the
  behaviour of its collaborators (IPFS, the anchor chain RPC, the signing library, the
  gRPC stream, the archival backend) to a result and a new state. Everything the code
  does beyond returning a value (counters, logger calls, network calls, scheduled tasks)
  is written to the state.
\<close>

subsection \<open>Exceptions\<close>

text \<open>
  The exception classes the pipeline raises or handles. \<open>OtherError\<close> stands for any
  other subclass of \<open>Exception\<close> (an RPC failure, a JSON decoding error).
  \<open>CancelledError\<close> derives from \<open>BaseException\<close>: a handler \<open>except Exception\<close>
  does not catch it.
\<close>

datatype exc =
    ConnectionResetError
  | GRPCError
  | CancelledError
  | TimeoutError
  | IPFSAsyncClientError
  | HTTPStatusError
  | ValueError
  | IndexError
  | OverflowError
  | UnboundLocalError
  | RetryError exc
  | OtherError

definition is_Exception :: "exc \<Rightarrow> bool" where
  "is_Exception e = (e \<noteq> CancelledError)"

subsection \<open>Bytes\<close>

type_synonym byte = "8 word"
type_synonym bytes = "byte list"

text \<open>\<open>str.encode('utf-8')\<close> on the ASCII text that \<open>json.dumps\<close> produces.\<close>

definition encode_utf8 :: "string \<Rightarrow> bytes" where
  "encode_utf8 s = map of_char s"

subsection \<open>Observable effects\<close>

datatype level = DEBUG | INFO | WARNING | ERROR

record SnapshotterStatus =
  totalSuccessfulSubmissions :: int
  totalMissedSubmissions :: int
  consecutiveMissedSubmissions :: int

record SnapshotterIssue =
  instanceID :: string
  issueType :: string
  projectID :: string
  issue_epochId :: string
  timeOfReporting :: string
  extra :: exc

record SnapshotterReportData =
  snapshotterIssue :: SnapshotterIssue
  snapshotterStatus :: SnapshotterStatus

record Request =
  slotId :: int
  deadline :: int
  snapshotCid :: string
  epochId :: int
  projectId :: string

record SnapshotSubmission =
  request :: Request
  signature :: string
  header :: string

text \<open>
  One entry per effect, in program order. A logger call is kept as its level and the
  leading words of its message. \<open>Sleep h\<close> is a backoff sleep drawn from the interval
  from 0 to \<open>h\<close> seconds; \<open>StreamCancel t\<close> is \<open>asyncio.wait_for(stream.cancel(), timeout=t)\<close>.
\<close>

datatype event =
    Log level string
  | IpfsAddBytes bytes
  | Web3Post bytes
  | Sleep nat
  | GetBlock
  | StreamOpen
  | StreamSend SnapshotSubmission
  | StreamRecv
  | StreamCancel nat
  | StreamExit
  | Notify SnapshotterReportData
  | EnsureFuture bytes

subsection \<open>The retry decorator\<close>

text \<open>
  Both upload methods are wrapped in
  \<^verbatim>\<open>@retry(wait=wait_random_exponential(multiplier=1, max=10), stop=stop_after_attempt(5),
         retry=tenacity.retry_if_not_exception_type(X), after=callback)\<close>.
  The policy is kept as a record; \<open>excluded\<close> is the class \<open>X\<close>.
\<close>

record retry_policy =
  multiplier :: nat
  max_wait :: nat
  max_attempt_number :: nat
  excluded :: "exc \<Rightarrow> bool"

text \<open>\<open>wait_random_exponential\<close>: the sleep before attempt \<open>n + 1\<close> is uniform between 0
  and \<open>min (multiplier * 2 ^ (n - 1)) max\<close>; the model keeps that upper end.\<close>

definition wait_high :: "retry_policy \<Rightarrow> nat \<Rightarrow> nat" where
  "wait_high p n = min (multiplier p * 2 ^ (n - 1)) (max_wait p)"

definition stop_after_attempt :: "retry_policy \<Rightarrow> nat \<Rightarrow> bool" where
  "stop_after_attempt p n = (max_attempt_number p \<le> n)"

definition retry_if_not_exception_type :: "retry_policy \<Rightarrow> exc \<Rightarrow> bool" where
  "retry_if_not_exception_type p e = (\<not> excluded p e)"

text \<open>
  The loop of the decorator, from attempt number \<open>n\<close> (the first attempt is 1). \<open>fn n\<close>
  is the \<open>n\<close>-th call of the wrapped method with the effects it has. A success is
  returned; an exception of the excluded class is re-raised as it is; any other exception
  runs the \<open>after\<close> callback (a warning), then either stops with \<open>RetryError\<close> or sleeps
  and tries again.
\<close>

function retrying ::
  "retry_policy \<Rightarrow> string \<Rightarrow> (nat \<Rightarrow> (exc + 'a) \<times> event list) \<Rightarrow> nat \<Rightarrow> (exc + 'a) \<times> event list" where
  "retrying p after fn n =
     (case fn n of
        (Inr v, evs) \<Rightarrow> (Inr v, evs)
      | (Inl e, evs) \<Rightarrow>
          if \<not> retry_if_not_exception_type p e then (Inl e, evs)
          else if stop_after_attempt p n then (Inl (RetryError e), evs @ [Log WARNING after])
          else (case retrying p after fn (Suc n) of
                  (r, evs') \<Rightarrow> (r, evs @ [Log WARNING after, Sleep (wait_high p n)] @ evs')))"
  by pat_completeness auto
termination
  by (relation "measure (\<lambda>(p, after, fn, n). max_attempt_number p - n)")
     (auto simp: stop_after_attempt_def)

declare retrying.simps [simp del]

definition ipfs_policy :: retry_policy where
  "ipfs_policy = \<lparr> multiplier = 1, max_wait = 10, max_attempt_number = 5,
                   excluded = (\<lambda>e. e = IPFSAsyncClientError) \<rparr>"

definition web3_storage_policy :: retry_policy where
  "web3_storage_policy = \<lparr> multiplier = 1, max_wait = 10, max_attempt_number = 5,
                           excluded = (\<lambda>e. e = HTTPStatusError) \<rparr>"

subsection \<open>Settings, collaborators and the worker\<close>

text \<open>
  The options of \<open>settings\<close> that the pipeline reads. A Python string is false when it is
  empty, so an unset URL or token is the empty string.
\<close>

record settings =
  ipfs_url :: string
  instance_id :: string
  slot_id :: int
  deadline_buffer :: int
  signer_private_key :: string
  web3storage_api_token :: string

record block =
  number :: string
  hash :: string

record response =
  is_success :: bool
  json :: "exc + string"

text \<open>
  What the collaborators do during one invocation. These are libraries and services
  outside the repository, so their behaviour is an input:
  \<^item> \<open>add_bytes n b\<close>: the \<open>n\<close>-th call of the IPFS client's \<open>add_bytes\<close> on \<open>b\<close>;
  \<^item> \<open>cid_sha256_hash\<close>: the local content hash of \<open>ipfs_cid\<close>;
  \<^item> \<open>eth_get_block\<close>: the anchor chain's latest block, or the exception of the RPC helper;
  \<^item> \<open>signable_bytes\<close>: the EIP-712 encoding of a request under the worker's domain separator;
  \<^item> \<open>from_hex\<close>, \<open>sign_recoverable\<close>: \<open>PrivateKey.from_hex\<close> and
    \<open>PrivateKey.sign_recoverable\<close> with the Keccak hasher, a private key being a number;
  \<^item> \<open>stream_open\<close>, \<open>send_message\<close>, \<open>recv_message\<close>, \<open>stream_exit\<close>: the exception, if any,
    that entering the stream, sending, receiving and leaving the stream raise;
  \<^item> \<open>stream_cancel\<close>: how many seconds \<open>stream.cancel()\<close> takes and the exception, if any,
    it raises;
  \<^item> \<open>post n b\<close>: the \<open>n\<close>-th POST of \<open>b\<close> to the archival backend;
  \<^item> \<open>time\<close>: \<open>str(time.time())\<close>.
\<close>

record env =
  config :: settings
  add_bytes :: "nat \<Rightarrow> bytes \<Rightarrow> exc + string"
  cid_sha256_hash :: "bytes \<Rightarrow> string"
  eth_get_block :: "exc + block"
  signable_bytes :: "Request \<Rightarrow> exc + bytes"
  from_hex :: "string \<Rightarrow> exc + nat"
  sign_recoverable :: "nat \<Rightarrow> bytes \<Rightarrow> bytes"
  stream_open :: "exc option"
  send_message :: "exc option"
  recv_message :: "exc option"
  stream_cancel :: "nat \<times> exc option"
  stream_exit :: "exc option"
  post :: "nat \<Rightarrow> bytes \<Rightarrow> exc + response"
  time :: string

text \<open>The worker: \<open>self.status\<close>, \<open>self._private_key\<close>, \<open>self._identity_private_key\<close>,
  and the effects so far.\<close>

record worker =
  status :: SnapshotterStatus
  private_key :: string
  identity_private_key :: nat
  trace :: "event list"

definition emit :: "event list \<Rightarrow> worker \<Rightarrow> worker" where
  "emit evs w = w\<lparr>trace := trace w @ evs\<rparr>"

subsection \<open>The two upload methods\<close>

text \<open>\<open>_upload_to_ipfs\<close>: \<open>add_bytes\<close> under the retry decorator.\<close>

definition upload_to_ipfs :: "worker \<Rightarrow> env \<Rightarrow> bytes \<Rightarrow> (exc + string) \<times> worker" where
  "upload_to_ipfs w ev snapshot =
     (case retrying ipfs_policy ''Encountered ipfs upload exception''
             (\<lambda>n. (add_bytes ev n snapshot, [IpfsAddBytes snapshot])) 1 of
        (r, evs) \<Rightarrow> (r, emit evs w))"

text \<open>One run of the body of \<open>_upload_web3_storage\<close>.\<close>

definition web3_storage_attempt :: "env \<Rightarrow> bytes \<Rightarrow> nat \<Rightarrow> (exc + unit) \<times> event list" where
  "web3_storage_attempt ev snapshot n =
     (if web3storage_api_token (config ev) = [] then (Inr (), [])
      else (case post ev n snapshot of
              Inl e \<Rightarrow> (Inl e, [Web3Post snapshot])
            | Inr r \<Rightarrow>
                if \<not> is_success r then (Inl HTTPStatusError, [Web3Post snapshot])
                else (case json r of
                        Inl e \<Rightarrow> (Inl e, [Web3Post snapshot])
                      | Inr resp \<Rightarrow>
                          (Inr (), [Web3Post snapshot, Log INFO ''Uploaded snapshot to web3 storage'']))))"

definition upload_web3_storage :: "worker \<Rightarrow> env \<Rightarrow> bytes \<Rightarrow> (exc + unit) \<times> worker" where
  "upload_web3_storage w ev snapshot =
     (case retrying web3_storage_policy ''Encountered web3 storage upload exception''
             (web3_storage_attempt ev snapshot) 1 of
        (r, evs) \<Rightarrow> (r, emit evs w))"



subsection \<open>Hexadecimal text and big-endian integers\<close>

definition hex_digit :: "char \<Rightarrow> nat option" where
  "hex_digit c =
     (let n = (of_char c :: nat)
      in if 48 \<le> n \<and> n \<le> 57 then Some (n - 48)
         else if 97 \<le> n \<and> n \<le> 102 then Some (n - 87)
         else if 65 \<le> n \<and> n \<le> 70 then Some (n - 55)
         else None)"

fun hex_value :: "nat \<Rightarrow> string \<Rightarrow> nat option" where
  "hex_value acc [] = Some acc"
| "hex_value acc (c # cs) =
     (case hex_digit c of None \<Rightarrow> None | Some d \<Rightarrow> hex_value (16 * acc + d) cs)"

definition startswith :: "string \<Rightarrow> string \<Rightarrow> bool" where
  "startswith s p = (take (length p) s = p)"

text \<open>
  \<open>int(s, 16)\<close> on an optional sign, an optional \<open>0x\<close> or \<open>0X\<close> and at least one
  hexadecimal digit. Python also accepts surrounding white space and single underscores
  between digits; such text is not what an RPC node returns and is rejected here.
\<close>

definition py_int16 :: "string \<Rightarrow> exc + int" where
  "py_int16 s =
     (let (neg, s1) =
            (case s of
               [] \<Rightarrow> (False, s)
             | c # cs \<Rightarrow> if c = CHR ''-'' then (True, cs)
                         else if c = CHR ''+'' then (False, cs) else (False, s));
          s2 = (if startswith s1 ''0x'' \<or> startswith s1 ''0X'' then drop 2 s1 else s1)
      in if s2 = [] then Inl ValueError
         else (case hex_value 0 s2 of
                 None \<Rightarrow> Inl ValueError
               | Some n \<Rightarrow> Inr (if neg then - int n else int n)))"

text \<open>
  \<open>PrivateKey.from_hex\<close> of coincurve, for use as \<open>from_hex\<close>: the text is decoded with
  \<open>binascii.unhexlify\<close>, which raises on any character that is not a hexadecimal digit,
  and the secret must lie strictly between 0 and the order of the secp256k1 group.
\<close>

definition GROUP_ORDER :: nat where
  "GROUP_ORDER = 115792089237316195423570985008687907852837564279074904382605163141518161494337"

definition coincurve_from_hex :: "string \<Rightarrow> exc + nat" where
  "coincurve_from_hex hexed =
     (case hex_value 0 hexed of
        None \<Rightarrow> Inl ValueError
      | Some k \<Rightarrow> if 0 < k \<and> k < GROUP_ORDER then Inr k else Inl ValueError)"

text \<open>\<open>big_endian_to_int\<close> of eth_utils and \<open>int.to_bytes(length, 'big')\<close>.\<close>

definition big_endian_to_int :: "bytes \<Rightarrow> nat" where
  "big_endian_to_int bs = foldl (\<lambda>a b. 256 * a + unat b) 0 bs"

fun le_bytes :: "nat \<Rightarrow> nat \<Rightarrow> bytes" where
  "le_bytes 0 x = []"
| "le_bytes (Suc n) x = of_nat (x mod 256) # le_bytes n (x div 256)"

definition to_bytes :: "nat \<Rightarrow> nat \<Rightarrow> exc + bytes" where
  "to_bytes x n = (if x < 256 ^ n then Inr (rev (le_bytes n x)) else Inl OverflowError)"

definition hex_char :: "nat \<Rightarrow> char" where
  "hex_char d = ''0123456789abcdef'' ! (d mod 16)"

text \<open>\<open>bytes.hex()\<close>.\<close>

definition hex :: "bytes \<Rightarrow> string" where
  "hex bs = concat (map (\<lambda>b. [hex_char (unat b div 16), hex_char (unat b mod 16)]) bs)"

subsection \<open>Signing\<close>

text \<open>
  The end of \<open>_init_rpc_helper\<close>: the configured key is copied to \<open>self._private_key\<close>,
  a leading \<open>0x\<close> is cut from the copy, and the identity key is built with
  \<open>PrivateKey.from_hex(settings.signer_private_key)\<close>.
\<close>

definition init_rpc_helper :: "worker \<Rightarrow> env \<Rightarrow> exc + worker" where
  "init_rpc_helper w ev =
     (let pk = signer_private_key (config ev);
          pk = (if startswith pk ''0x'' then drop 2 pk else pk)
      in case from_hex ev (signer_private_key (config ev)) of
           Inl e \<Rightarrow> Inl e
         | Inr k \<Rightarrow> Inr (w\<lparr>private_key := pk, identity_private_key := k\<rparr>))"

text \<open>
  The last lines of \<open>generate_signature\<close>: \<open>signature[64] + 27\<close> raises on a signature
  shorter than 65 bytes, the slices \<open>signature[0:32]\<close> and \<open>signature[32:64]\<close> never raise.
\<close>

definition serialize_signature :: "bytes \<Rightarrow> exc + bytes" where
  "serialize_signature sg =
     (if length sg \<le> 64 then Inl IndexError
      else let v = unat (sg ! 64) + 27;
               r = big_endian_to_int (take 32 sg);
               s = big_endian_to_int (take 32 (drop 32 sg))
           in case to_bytes r 32 of
                Inl e \<Rightarrow> Inl e
              | Inr rb \<Rightarrow>
                  (case to_bytes s 32 of
                     Inl e \<Rightarrow> Inl e
                   | Inr sb \<Rightarrow>
                       (case to_bytes v 1 of
                          Inl e \<Rightarrow> Inl e
                        | Inr vb \<Rightarrow> Inr (rb @ sb @ vb))))"

text \<open>
  The key that signs: \<open>not private_key\<close> holds for \<open>None\<close> and for the empty string, and
  then the identity key signs; otherwise a leading \<open>0x\<close> is cut and the rest is parsed.
\<close>

definition signing_key :: "worker \<Rightarrow> env \<Rightarrow> string option \<Rightarrow> exc + nat" where
  "signing_key w ev private_key_arg =
     (case private_key_arg of
        None \<Rightarrow> Inr (identity_private_key w)
      | Some pk \<Rightarrow>
          if pk = [] then Inr (identity_private_key w)
          else from_hex ev (if startswith pk ''0x'' then drop 2 pk else pk))"

definition generate_signature ::
  "worker \<Rightarrow> env \<Rightarrow> string \<Rightarrow> int \<Rightarrow> string \<Rightarrow> int option \<Rightarrow> string option
     \<Rightarrow> exc + (Request \<times> bytes \<times> string)" where
  "generate_signature w ev snapshot_cid epoch_id project_id slot_id_arg private_key_arg =
     (case eth_get_block ev of
        Inl e \<Rightarrow> Inl e
      | Inr current_block \<Rightarrow>
          (case py_int16 (number current_block) of
             Inl e \<Rightarrow> Inl e
           | Inr current_block_number \<Rightarrow>
               let current_block_hash = hash current_block;
                   dl = current_block_number + deadline_buffer (config ev);
                   request_slot_id =
                     (case slot_id_arg of
                        None \<Rightarrow> slot_id (config ev)
                      | Some i \<Rightarrow> if i = 0 then slot_id (config ev) else i);
                   req = \<lparr> slotId = request_slot_id, deadline = dl, snapshotCid = snapshot_cid,
                           epochId = epoch_id, projectId = project_id \<rparr>
               in (case signable_bytes ev req of
                     Inl e \<Rightarrow> Inl e
                   | Inr sb \<Rightarrow>
                       (case signing_key w ev private_key_arg of
                          Inl e \<Rightarrow> Inl e
                        | Inr k \<Rightarrow>
                            (case serialize_signature (sign_recoverable ev k sb) of
                               Inl e \<Rightarrow> Inl e
                             | Inr final_sig \<Rightarrow> Inr (req, final_sig, current_block_hash))))))"

subsection \<open>Delivery to the collector\<close>

text \<open>\<open>asyncio.wait_for(op, timeout)\<close>: \<open>TimeoutError\<close> when the operation takes longer.\<close>

definition wait_for :: "nat \<times> exc option \<Rightarrow> nat \<Rightarrow> exc option" where
  "wait_for op timeout = (if timeout < fst op then Some TimeoutError else snd op)"

text \<open>
  The handlers of the \<open>try\<close> in \<open>_send_msg_with_closure\<close>, in the order of the source,
  for an exception \<open>e\<close> raised by \<open>send_message\<close> or \<open>recv_message\<close>. Each handler only
  logs, and so does each handler around the cancel.
\<close>

definition cancel_handlers :: "exc option \<Rightarrow> event list" where
  "cancel_handlers r =
     (case r of
        None \<Rightarrow> []
      | Some e \<Rightarrow>
          if e = TimeoutError then [Log ERROR ''Timeout in cancelling stream'']
          else if e = CancelledError then [Log INFO ''Stream was already cancelled'']
          else [Log ERROR ''Probable exception in cancelling stream''])"

definition send_handlers :: "env \<Rightarrow> exc \<Rightarrow> event list" where
  "send_handlers ev e =
     (if e = ConnectionResetError \<or> e = GRPCError
      then [Log ERROR ''Probable grpc failure to send snapshot'', StreamCancel 10]
             @ cancel_handlers (wait_for (stream_cancel ev) 10)
      else if e = CancelledError
      then [Log INFO ''Task to send snapshot to local collector was asyncio cancelled'']
      else [Log ERROR ''Probable failure to send snapshot''])"

definition send_msg_with_closure ::
  "worker \<Rightarrow> env \<Rightarrow> SnapshotSubmission \<Rightarrow> bool \<Rightarrow> (exc + unit) \<times> worker" where
  "send_msg_with_closure w ev msg simulation =
     (case stream_open ev of
        Some e \<Rightarrow> (Inl e, emit [StreamOpen] w)
      | None \<Rightarrow>
          let body =
                (case send_message ev of
                   Some e \<Rightarrow> [StreamSend msg] @ send_handlers ev e
                 | None \<Rightarrow>
                     (case recv_message ev of
                        Some e \<Rightarrow>
                          [StreamSend msg, Log DEBUG ''Sent message to local collector'', StreamRecv]
                            @ send_handlers ev e
                      | None \<Rightarrow>
                          [StreamSend msg, Log DEBUG ''Sent message to local collector'', StreamRecv,
                           Log DEBUG ''Received response from local collector'',
                           Log INFO (if simulation
                                     then ''Simulation snapshot submitted successfully to local collector''
                                     else ''Snapshot submitted successfully to local collector'')]));
              w' = emit ([StreamOpen] @ body @ [StreamExit]) w
          in (case stream_exit ev of None \<Rightarrow> (Inr (), w') | Some e \<Rightarrow> (Inl e, w')))"

definition send_submission_to_collector ::
  "worker \<Rightarrow> env \<Rightarrow> string \<Rightarrow> int \<Rightarrow> string \<Rightarrow> int option \<Rightarrow> string option
     \<Rightarrow> (exc + unit) \<times> worker" where
  "send_submission_to_collector w ev snapshot_cid epoch_id project_id slot_id_arg private_key_arg =
     (let w1 = emit [Log DEBUG ''Sending submission to collector'', GetBlock] w
      in case generate_signature w ev snapshot_cid epoch_id project_id slot_id_arg private_key_arg of
           Inl e \<Rightarrow> (Inl e, w1)
         | Inr (request_, sg, current_block_hash) \<Rightarrow>
             let msg = \<lparr> request = request_, signature = hex sg, header = current_block_hash \<rparr>;
                 w2 = emit [Log DEBUG ''Snapshot submission creation with request'',
                            Log DEBUG ''Snapshot submission created''] w1;
                 simulation = (epoch_id = 0)
             in (case send_msg_with_closure w2 ev msg simulation of
                   (Inl e, w3) \<Rightarrow>
                     if e = TimeoutError
                     then (Inr (), emit [Log ERROR ''Timeout in _send_submission_to_collector''] w3)
                     else if is_Exception e
                     then (Inr (), emit [Log ERROR ''Probable exception in _send_submission_to_collector''] w3)
                     else (Inl e, w3)
                 | (Inr u, w3) \<Rightarrow>
                     (Inr (), emit [Log INFO ''In _send_submission_to_collector successfully sent''] w3)))"

subsection \<open>Canonical JSON\<close>

text \<open>
  The value that \<open>snapshot.dict(by_alias=True)\<close> hands to \<open>json.dumps\<close>. A Python
  dict keeps its entries in insertion order and holds a key once: it is a list of
  entries whose keys are distinct. Floating point numbers are left out.
\<close>

datatype jvalue =
    JNull
  | JBool bool
  | JInt int
  | JStr string
  | JList "jvalue list"
  | JDict "(string \<times> jvalue) list"

fun wf_jvalue :: "jvalue \<Rightarrow> bool" where
  "wf_jvalue (JList xs) = list_all wf_jvalue xs"
| "wf_jvalue (JDict kvs) = (distinct (map fst kvs) \<and> list_all (\<lambda>kv. wf_jvalue (snd kv)) kvs)"
| "wf_jvalue _ = True"

text \<open>
  Equality of two payloads as data: the same scalar, lists equal position by position,
  dicts with the same keys and equal values under each key, whatever the order of the
  entries.
\<close>

fun same_content :: "jvalue \<Rightarrow> jvalue \<Rightarrow> bool" where
  "same_content JNull JNull = True"
| "same_content (JBool a) (JBool b) = (a = b)"
| "same_content (JInt a) (JInt b) = (a = b)"
| "same_content (JStr a) (JStr b) = (a = b)"
| "same_content (JList xs) (JList ys) = list_all2 same_content xs ys"
| "same_content (JDict kvs) (JDict kvs') =
     (length kvs = length kvs' \<and>
      list_all (\<lambda>kv. case map_of kvs' (fst kv) of
                        None \<Rightarrow> False
                      | Some v' \<Rightarrow> same_content (snd kv) v') kvs)"
| "same_content _ _ = False"

fun digits :: "nat \<Rightarrow> string" where
  "digits n = (if n < 10 then [''0123456789'' ! n]
               else digits (n div 10) @ [''0123456789'' ! (n mod 10)])"

definition str_int :: "int \<Rightarrow> string" where
  "str_int i = (if i < 0 then CHR ''-'' # digits (nat (- i)) else digits (nat i))"

text \<open>
  \<open>json.encoder.py_encode_basestring_ascii\<close> on characters below 256: the backslash, the
  double quote and the five named control characters get their two-character escape, any
  other character outside the range from space to tilde is written \<open>\u00XX\<close>.
\<close>

definition escape_char :: "char \<Rightarrow> string" where
  "escape_char c =
     (if c = CHR 0x5C then [CHR 0x5C, CHR 0x5C]
      else if c = CHR 0x22 then [CHR 0x5C, CHR 0x22]
      else if c = CHR 0x08 then [CHR 0x5C, CHR ''b'']
      else if c = CHR 0x0C then [CHR 0x5C, CHR ''f'']
      else if c = CHR 0x0A then [CHR 0x5C, CHR ''n'']
      else if c = CHR 0x0D then [CHR 0x5C, CHR ''r'']
      else if c = CHR 0x09 then [CHR 0x5C, CHR ''t'']
      else (let n = (of_char c :: nat)
            in if 32 \<le> n \<and> n \<le> 126 then [c]
               else [CHR 0x5C, CHR ''u'', CHR ''0'', CHR ''0'',
                     hex_char (n div 16), hex_char (n mod 16)]))"

definition encode_basestring_ascii :: "string \<Rightarrow> string" where
  "encode_basestring_ascii s = [CHR 0x22] @ concat (map escape_char s) @ [CHR 0x22]"

fun join :: "string \<Rightarrow> string list \<Rightarrow> string" where
  "join sep [] = []"
| "join sep [x] = x"
| "join sep (x # y # ys) = x @ sep @ join sep (y # ys)"

text \<open>
  \<open>json.dumps(value, sort_keys=True, separators=(',', ':'))\<close>. With \<open>sort_keys\<close> the
  encoder walks \<open>sorted(dct.items())\<close>; the keys of a dict are distinct, so the entries
  are ordered by key alone, strings comparing character by character.
\<close>

fun dumps :: "jvalue \<Rightarrow> string" where
  "dumps JNull = ''null''"
| "dumps (JBool b) = (if b then ''true'' else ''false'')"
| "dumps (JInt i) = str_int i"
| "dumps (JStr s) = encode_basestring_ascii s"
| "dumps (JList xs) = ''['' @ join '','' (map dumps xs) @ '']''"
| "dumps (JDict kvs) =
     ''{'' @ join '','' (map (\<lambda>kv. encode_basestring_ascii (fst kv) @ '':'' @ dumps (snd kv))
                            (sort_key fst kvs)) @ ''}''"

subsection \<open>The commit\<close>

text \<open>
  Modelled from the spec: \<open>send_failure_notifications_async\<close> lives in
  \<open>snapshotter/utils/callback_helpers.py\<close>, which is not among the sources. The spec
  has it send the structured issue to the notification sink as a best-effort call whose
  own failure is logged and goes no further, so it adds one notification and never raises.
\<close>

definition send_failure_notifications_async :: "worker \<Rightarrow> SnapshotterReportData \<Rightarrow> worker" where
  "send_failure_notifications_async w message = emit [Notify message] w"

text \<open>
  The body that both \<open>except Exception as e\<close> handlers of \<open>_commit_payload\<close> share after
  their logger call: the two miss counters go up by one, the report is built around the
  updated status and sent.
\<close>

definition report_missed_snapshot :: "worker \<Rightarrow> env \<Rightarrow> string \<Rightarrow> int \<Rightarrow> exc \<Rightarrow> worker" where
  "report_missed_snapshot w ev project_id epoch_id e =
     (let st = status w;
          st = st\<lparr>totalMissedSubmissions := totalMissedSubmissions st + 1\<rparr>;
          st = st\<lparr>consecutiveMissedSubmissions := consecutiveMissedSubmissions st + 1\<rparr>;
          w = w\<lparr>status := st\<rparr>;
          notification_message =
            \<lparr> snapshotterIssue =
                \<lparr> instanceID = instance_id (config ev),
                  issueType = ''MISSED_SNAPSHOT'',
                  projectID = project_id,
                  issue_epochId = str_int epoch_id,
                  timeOfReporting = time ev,
                  extra = e \<rparr>,
              snapshotterStatus = st \<rparr>
      in send_failure_notifications_async w notification_message)"

text \<open>The \<open>else\<close> branch of the inner \<open>try\<close>.\<close>

definition record_success :: "worker \<Rightarrow> worker" where
  "record_success w =
     (let st = status w;
          st = st\<lparr>consecutiveMissedSubmissions := 0\<rparr>;
          st = st\<lparr>totalSuccessfulSubmissions := totalSuccessfulSubmissions st + 1\<rparr>
      in w\<lparr>status := st\<rparr>)"

text \<open>The body of the outer \<open>try\<close>: the upload proper.\<close>

definition upload_snapshot :: "worker \<Rightarrow> env \<Rightarrow> bytes \<Rightarrow> (exc + string) \<times> worker" where
  "upload_snapshot w ev snapshot_bytes =
     (if ipfs_url (config ev) \<noteq> [] then upload_to_ipfs w ev snapshot_bytes
      else (Inr (cid_sha256_hash ev snapshot_bytes), w))"

text \<open>
  The end of \<open>_commit_payload\<close>, after the \<open>try\<close> statement. The local variable
  \<open>snapshot_cid\<close> is bound only when the upload returned: \<open>return snapshot_cid\<close> on an
  unbound local raises \<open>UnboundLocalError\<close>.
\<close>

definition commit_epilogue ::
  "worker \<Rightarrow> bytes \<Rightarrow> bool \<Rightarrow> string option \<Rightarrow> (exc + string) \<times> worker" where
  "commit_epilogue w snapshot_bytes storage_flag snapshot_cid =
     (let w = (if storage_flag then emit [EnsureFuture snapshot_bytes] w else w)
      in case snapshot_cid of
           None \<Rightarrow> (Inl UnboundLocalError, w)
         | Some c \<Rightarrow> (Inr c, w))"

text \<open>
  \<open>_commit_payload\<close>. \<open>epoch_id\<close> is \<open>epoch.epochId\<close>. An exception that is not an
  \<open>Exception\<close> passes both handlers and leaves the method at once.
\<close>

definition commit_payload ::
  "worker \<Rightarrow> env \<Rightarrow> string \<Rightarrow> string \<Rightarrow> int \<Rightarrow> jvalue \<Rightarrow> bool \<Rightarrow> (exc + string) \<times> worker" where
  "commit_payload w ev task_type project_id epoch_id snapshot storage_flag =
     (let snapshot_json = dumps snapshot;
          snapshot_bytes = encode_utf8 snapshot_json
      in case upload_snapshot w ev snapshot_bytes of
           (Inl e, w1) \<Rightarrow>
             if is_Exception e
             then commit_epilogue
                    (report_missed_snapshot
                       (emit [Log ERROR ''Exception uploading snapshot to IPFS''] w1)
                       ev project_id epoch_id e)
                    snapshot_bytes storage_flag None
             else (Inl e, w1)
         | (Inr snapshot_cid, w1) \<Rightarrow>
             (case send_submission_to_collector w1 ev snapshot_cid epoch_id project_id None None of
                (Inl e, w2) \<Rightarrow>
                  if is_Exception e
                  then commit_epilogue
                         (report_missed_snapshot
                            (emit [Log ERROR ''Exception submitting snapshot to collector''] w2)
                            ev project_id epoch_id e)
                         snapshot_bytes storage_flag (Some snapshot_cid)
                  else (Inl e, w2)
              | (Inr u, w2) \<Rightarrow>
                  commit_epilogue (record_success w2) snapshot_bytes storage_flag (Some snapshot_cid)))"

subsection \<open>Reading the trace\<close>

fun is_Notify :: "event \<Rightarrow> bool" where
  "is_Notify (Notify m) = True"
| "is_Notify _ = False"

fun is_IpfsAddBytes :: "event \<Rightarrow> bool" where
  "is_IpfsAddBytes (IpfsAddBytes b) = True"
| "is_IpfsAddBytes _ = False"

fun is_Web3Post :: "event \<Rightarrow> bool" where
  "is_Web3Post (Web3Post b) = True"
| "is_Web3Post _ = False"

fun is_StreamSend :: "event \<Rightarrow> bool" where
  "is_StreamSend (StreamSend m) = True"
| "is_StreamSend _ = False"

fun is_EnsureFuture :: "event \<Rightarrow> bool" where
  "is_EnsureFuture (EnsureFuture b) = True"
| "is_EnsureFuture _ = False"

fun is_Sleep :: "event \<Rightarrow> bool" where
  "is_Sleep (Sleep h) = True"
| "is_Sleep _ = False"

text \<open>The effects that a call added to the trace.\<close>

definition added :: "worker \<Rightarrow> worker \<Rightarrow> event list" where
  "added w w' = drop (length (trace w)) (trace w')"

definition notifications :: "event list \<Rightarrow> SnapshotterReportData list" where
  "notifications evs = concat (map (\<lambda>e. case e of Notify m \<Rightarrow> [m] | _ \<Rightarrow> []) evs)"

text \<open>The kinds of effect that an upload and a delivery to the collector can have.\<close>

fun upload_event :: "event \<Rightarrow> bool" where
  "upload_event (IpfsAddBytes b) = True"
| "upload_event (Sleep h) = True"
| "upload_event (Log l s) = (l = WARNING)"
| "upload_event _ = False"

fun delivery_event :: "event \<Rightarrow> bool" where
  "delivery_event (Log l s) = True"
| "delivery_event GetBlock = True"
| "delivery_event StreamOpen = True"
| "delivery_event (StreamSend m) = True"
| "delivery_event StreamRecv = True"
| "delivery_event (StreamCancel t) = True"
| "delivery_event StreamExit = True"
| "delivery_event _ = False"

text \<open>
  The two ways in which a commit can leave the counters, as the spec words them: a recorded
  failure raises both miss counters by one, a recorded success raises the success counter
  by one and sets the consecutive misses to 0. \<open>missed_report\<close> is the report that a
  recorded failure sends.
\<close>

definition missed :: "SnapshotterStatus \<Rightarrow> SnapshotterStatus" where
  "missed st =
     st\<lparr>totalMissedSubmissions := totalMissedSubmissions st + 1,
        consecutiveMissedSubmissions := consecutiveMissedSubmissions st + 1\<rparr>"

definition succeeded :: "SnapshotterStatus \<Rightarrow> SnapshotterStatus" where
  "succeeded st =
     st\<lparr>consecutiveMissedSubmissions := 0,
        totalSuccessfulSubmissions := totalSuccessfulSubmissions st + 1\<rparr>"

definition missed_report :: "worker \<Rightarrow> env \<Rightarrow> string \<Rightarrow> int \<Rightarrow> exc \<Rightarrow> SnapshotterReportData" where
  "missed_report w ev project_id epoch_id e =
     \<lparr> snapshotterIssue =
         \<lparr> instanceID = instance_id (config ev), issueType = ''MISSED_SNAPSHOT'',
           projectID = project_id, issue_epochId = str_int epoch_id,
           timeOfReporting = time ev, extra = e \<rparr>,
       snapshotterStatus = missed (status w) \<rparr>"

definition sleeps :: "event list \<Rightarrow> nat list" where
  "sleeps evs = concat (map (\<lambda>e. case e of Sleep h \<Rightarrow> [h] | _ \<Rightarrow> []) evs)"

subsection \<open>A test double\<close>

text \<open>
  A fixed worker and fixed collaborators, on which the statements below are evaluated:
  no IPFS URL and no archival token, block \<open>0x10\<close> on the anchor chain, a deadline
  buffer of 30 blocks, a stream that delivers, and a signing stub that returns 64 copies
  of the low byte of the key followed by the recovery id 1.
\<close>

definition test_settings :: settings where
  "test_settings =
     \<lparr> ipfs_url = [], instance_id = ''node-1'', slot_id = 7, deadline_buffer = 30,
       signer_private_key = ''01'', web3storage_api_token = [] \<rparr>"

definition test_env :: env where
  "test_env =
     \<lparr> config = test_settings,
       add_bytes = (\<lambda>n b. Inl OtherError),
       cid_sha256_hash = (\<lambda>b. ''cid'' @ hex b),
       eth_get_block = Inr \<lparr> number = ''0x10'', hash = ''0xabc'' \<rparr>,
       signable_bytes = (\<lambda>r. Inr []),
       from_hex = coincurve_from_hex,
       sign_recoverable = (\<lambda>k m. replicate 64 (of_nat k) @ [1]),
       stream_open = None,
       send_message = None,
       recv_message = None,
       stream_cancel = (0, None),
       stream_exit = None,
       post = (\<lambda>n b. Inl OtherError),
       time = ''1700000000.0'' \<rparr>"

definition test_worker :: worker where
  "test_worker =
     \<lparr> status = \<lparr> totalSuccessfulSubmissions = 3, totalMissedSubmissions = 2,
                  consecutiveMissedSubmissions = 1 \<rparr>,
       private_key = ''01'', identity_private_key = 1, trace = [] \<rparr>"

section \<open>Properties\<close>

subsection \<open>The retry policy of the two uploads\<close>

lemma added_emit: "added w (emit evs w) = evs"
  by (simp add: added_def emit_def)

lemma retrying_exhaust:
  assumes fails: "\<forall>m. \<exists>e. fn m = (Inl e, [c]) \<and> \<not> excluded p e"
    and le: "n \<le> max_attempt_number p"
  shows "\<exists>e. retrying p a fn n =
           (Inl (RetryError e),
            concat (map (\<lambda>m. [c, Log WARNING a, Sleep (wait_high p m)]) [n..<max_attempt_number p])
              @ [c, Log WARNING a])"
  using le
proof (induction "max_attempt_number p - n" arbitrary: n)
  case 0
  then have n: "max_attempt_number p = n" by simp
  from fails obtain e where e: "fn n = (Inl e, [c])" "\<not> excluded p e" by blast
  show ?case
    by (subst retrying.simps)
       (simp add: e n retry_if_not_exception_type_def stop_after_attempt_def)
next
  case (Suc k)
  then have lt: "n < max_attempt_number p" and k: "k = max_attempt_number p - Suc n"
    and le': "Suc n \<le> max_attempt_number p" by simp_all
  from fails obtain e where e: "fn n = (Inl e, [c])" "\<not> excluded p e" by blast
  from Suc.hyps(1) [OF k le'] obtain e' where
    r: "retrying p a fn (Suc n) =
          (Inl (RetryError e'),
           concat (map (\<lambda>m. [c, Log WARNING a, Sleep (wait_high p m)]) [Suc n..<max_attempt_number p])
             @ [c, Log WARNING a])" by blast
  show ?case
    apply (subst retrying.simps)
    using lt by (simp add: e r retry_if_not_exception_type_def stop_after_attempt_def upt_conv_Cons)
qed

lemma retrying_excluded:
  assumes "fn n = (Inl e, evs)" "excluded p e"
  shows "retrying p a fn n = (Inl e, evs)"
  by (subst retrying.simps) (simp add: assms retry_if_not_exception_type_def)

lemma wait_high_ipfs: "wait_high ipfs_policy n = min (2 ^ (n - 1)) 10"
  by (simp add: wait_high_def ipfs_policy_def)

lemma wait_high_web3: "wait_high web3_storage_policy n = min (2 ^ (n - 1)) 10"
  by (simp add: wait_high_def web3_storage_policy_def)

lemma exhaust_five:
  assumes fails: "\<forall>m. \<exists>e. fn m = (Inl e, [c]) \<and> \<not> excluded p e"
    and five: "max_attempt_number p = 5"
  shows "\<exists>e. retrying p a fn 1 =
           (Inl (RetryError e),
            [c, Log WARNING a, Sleep (wait_high p 1), c, Log WARNING a, Sleep (wait_high p 2),
             c, Log WARNING a, Sleep (wait_high p 3), c, Log WARNING a, Sleep (wait_high p 4),
             c, Log WARNING a])"
proof -
  have le: "1 \<le> max_attempt_number p" by (simp add: five)
  from retrying_exhaust [OF fails le, of a] show ?thesis
    by (simp add: five upt_conv_Cons eval_nat_numeral)
qed

lemma ipfs_exhaust:
  assumes "\<forall>n. \<exists>e. add_bytes ev n b = Inl e \<and> e \<noteq> IPFSAsyncClientError"
  shows "(\<exists>e. fst (upload_to_ipfs w ev b) = Inl (RetryError e)) \<and>
         length (filter is_IpfsAddBytes (added w (snd (upload_to_ipfs w ev b)))) = 5 \<and>
         sleeps (added w (snd (upload_to_ipfs w ev b))) = [1, 2, 4, 8]"
proof -
  have f: "\<forall>m. \<exists>e. (add_bytes ev m b, [IpfsAddBytes b]) = (Inl e, [IpfsAddBytes b]) \<and> \<not> excluded ipfs_policy e"
    using assms by (simp add: ipfs_policy_def)
  have m: "max_attempt_number ipfs_policy = 5" by (simp add: ipfs_policy_def)
  from exhaust_five [where fn = "\<lambda>n. (add_bytes ev n b, [IpfsAddBytes b])", OF f m,
      of "''Encountered ipfs upload exception''"]
  obtain e where r: "retrying ipfs_policy ''Encountered ipfs upload exception''
       (\<lambda>n. (add_bytes ev n b, [IpfsAddBytes b])) 1 =
      (Inl (RetryError e),
       [IpfsAddBytes b, Log WARNING ''Encountered ipfs upload exception'', Sleep (wait_high ipfs_policy 1),
        IpfsAddBytes b, Log WARNING ''Encountered ipfs upload exception'', Sleep (wait_high ipfs_policy 2),
        IpfsAddBytes b, Log WARNING ''Encountered ipfs upload exception'', Sleep (wait_high ipfs_policy 3),
        IpfsAddBytes b, Log WARNING ''Encountered ipfs upload exception'', Sleep (wait_high ipfs_policy 4),
        IpfsAddBytes b, Log WARNING ''Encountered ipfs upload exception''])" by blast
  from r show ?thesis
    by (simp add: upload_to_ipfs_def added_emit sleeps_def wait_high_ipfs)
qed

lemma ipfs_excluded:
  assumes "add_bytes ev 1 b = Inl IPFSAsyncClientError"
  shows "fst (upload_to_ipfs w ev b) = Inl IPFSAsyncClientError \<and>
         added w (snd (upload_to_ipfs w ev b)) = [IpfsAddBytes b]"
proof -
  have "retrying ipfs_policy ''Encountered ipfs upload exception''
          (\<lambda>n. (add_bytes ev n b, [IpfsAddBytes b])) 1 = (Inl IPFSAsyncClientError, [IpfsAddBytes b])"
    using assms by (intro retrying_excluded) (simp_all add: ipfs_policy_def)
  then show ?thesis by (simp add: upload_to_ipfs_def added_emit)
qed

lemma web3_exhaust:
  assumes tok: "web3storage_api_token (config ev) \<noteq> []"
    and fails: "\<forall>n. \<exists>e. post ev n b = Inl e \<and> e \<noteq> HTTPStatusError"
  shows "(\<exists>e. fst (upload_web3_storage w ev b) = Inl (RetryError e)) \<and>
         length (filter is_Web3Post (added w (snd (upload_web3_storage w ev b)))) = 5 \<and>
         sleeps (added w (snd (upload_web3_storage w ev b))) = [1, 2, 4, 8]"
proof -
  have f: "\<forall>m. \<exists>e. web3_storage_attempt ev b m = (Inl e, [Web3Post b]) \<and> \<not> excluded web3_storage_policy e"
  proof
    fix m
    from fails obtain e where "post ev m b = Inl e" "e \<noteq> HTTPStatusError" by blast
    then show "\<exists>e. web3_storage_attempt ev b m = (Inl e, [Web3Post b]) \<and> \<not> excluded web3_storage_policy e"
      by (simp add: web3_storage_attempt_def tok web3_storage_policy_def)
  qed
  have m: "max_attempt_number web3_storage_policy = 5" by (simp add: web3_storage_policy_def)
  from exhaust_five [OF f m, of "''Encountered web3 storage upload exception''"]
  obtain e where r: "retrying web3_storage_policy ''Encountered web3 storage upload exception''
       (web3_storage_attempt ev b) 1 =
      (Inl (RetryError e),
       [Web3Post b, Log WARNING ''Encountered web3 storage upload exception'', Sleep (wait_high web3_storage_policy 1),
        Web3Post b, Log WARNING ''Encountered web3 storage upload exception'', Sleep (wait_high web3_storage_policy 2),
        Web3Post b, Log WARNING ''Encountered web3 storage upload exception'', Sleep (wait_high web3_storage_policy 3),
        Web3Post b, Log WARNING ''Encountered web3 storage upload exception'', Sleep (wait_high web3_storage_policy 4),
        Web3Post b, Log WARNING ''Encountered web3 storage upload exception''])" by blast
  from r show ?thesis
    by (simp add: upload_web3_storage_def added_emit sleeps_def wait_high_web3)
qed

lemma web3_excluded:
  assumes tok: "web3storage_api_token (config ev) \<noteq> []"
    and bad: "\<exists>r. post ev 1 b = Inr r \<and> \<not> is_success r"
  shows "fst (upload_web3_storage w ev b) = Inl HTTPStatusError \<and>
         added w (snd (upload_web3_storage w ev b)) = [Web3Post b]"
proof -
  from bad obtain r where "post ev 1 b = Inr r" "\<not> is_success r" by blast
  then have "retrying web3_storage_policy ''Encountered web3 storage upload exception''
          (web3_storage_attempt ev b) 1 = (Inl HTTPStatusError, [Web3Post b])"
    using tok by (intro retrying_excluded) (simp_all add: web3_storage_attempt_def tok web3_storage_policy_def)
  then show ?thesis by (simp add: upload_web3_storage_def added_emit)
qed

text \<open>
  Claim C4. When \<open>add_bytes\<close> fails on every call with an exception outside the excluded
  class, \<open>_upload_to_ipfs\<close> calls it exactly 5 times, sleeps four times in between with
  upper ends 1, 2, 4 and 8 seconds, and raises \<open>RetryError\<close>; when the first call raises
  \<open>IPFSAsyncClientError\<close> the upload raises it after that single call. The archival
  upload behaves the same way, its excluded class being \<open>HTTPStatusError\<close>. Both
  policies sleep at most \<open>min (2 ^ (n - 1)) 10\<close> seconds after attempt \<open>n\<close>, and each retries
  on the class that the other excludes.
\<close>

theorem upload_retry_bound:
  "((\<forall>n. \<exists>e. add_bytes ev n b = Inl e \<and> e \<noteq> IPFSAsyncClientError) \<longrightarrow>
      (\<exists>e. fst (upload_to_ipfs w ev b) = Inl (RetryError e)) \<and>
      length (filter is_IpfsAddBytes (added w (snd (upload_to_ipfs w ev b)))) = 5 \<and>
      sleeps (added w (snd (upload_to_ipfs w ev b))) = [1, 2, 4, 8]) \<and>
   (add_bytes ev 1 b = Inl IPFSAsyncClientError \<longrightarrow>
      fst (upload_to_ipfs w ev b) = Inl IPFSAsyncClientError \<and>
      added w (snd (upload_to_ipfs w ev b)) = [IpfsAddBytes b]) \<and>
   (web3storage_api_token (config ev) \<noteq> [] \<and>
    (\<forall>n. \<exists>e. post ev n b = Inl e \<and> e \<noteq> HTTPStatusError) \<longrightarrow>
      (\<exists>e. fst (upload_web3_storage w ev b) = Inl (RetryError e)) \<and>
      length (filter is_Web3Post (added w (snd (upload_web3_storage w ev b)))) = 5 \<and>
      sleeps (added w (snd (upload_web3_storage w ev b))) = [1, 2, 4, 8]) \<and>
   (web3storage_api_token (config ev) \<noteq> [] \<and>
    (\<exists>r. post ev 1 b = Inr r \<and> \<not> is_success r) \<longrightarrow>
      fst (upload_web3_storage w ev b) = Inl HTTPStatusError \<and>
      added w (snd (upload_web3_storage w ev b)) = [Web3Post b]) \<and>
   (\<forall>n. wait_high ipfs_policy n = min (2 ^ (n - 1)) 10 \<and>
        wait_high web3_storage_policy n = min (2 ^ (n - 1)) 10) \<and>
   retry_if_not_exception_type ipfs_policy HTTPStatusError \<and>
   retry_if_not_exception_type web3_storage_policy IPFSAsyncClientError"
  using ipfs_exhaust [of ev b w] ipfs_excluded [of ev b w] web3_exhaust [of ev b w]
    web3_excluded [of ev b w]
  by (simp add: wait_high_ipfs wait_high_web3 retry_if_not_exception_type_def)
     (simp add: ipfs_policy_def web3_storage_policy_def)

theorem upload_retry_bound_witness:
  "(\<exists>e. fst (upload_to_ipfs test_worker test_env [1, 2]) = Inl (RetryError e)) \<and>
   length (filter is_IpfsAddBytes
     (added test_worker (snd (upload_to_ipfs test_worker test_env [1, 2])))) = 5 \<and>
   fst (upload_to_ipfs test_worker
         (test_env\<lparr>add_bytes := (\<lambda>n b. Inl IPFSAsyncClientError)\<rparr>) [1, 2]) = Inl IPFSAsyncClientError \<and>
   length (filter is_Web3Post
     (added test_worker (snd (upload_web3_storage test_worker
        (test_env\<lparr>config := test_settings\<lparr>web3storage_api_token := ''token''\<rparr>\<rparr>) [1, 2])))) = 5 \<and>
   fst (upload_web3_storage test_worker
         (test_env\<lparr>config := test_settings\<lparr>web3storage_api_token := ''token''\<rparr>,
                   post := (\<lambda>n b. Inr \<lparr>is_success = False, json = Inr []\<rparr>)\<rparr>) [1, 2]) = Inl HTTPStatusError"
  using upload_retry_bound [of test_env "[1, 2]" test_worker]
    upload_retry_bound [of "test_env\<lparr>add_bytes := (\<lambda>n b. Inl IPFSAsyncClientError)\<rparr>" "[1, 2]" test_worker]
    upload_retry_bound [of "test_env\<lparr>config := test_settings\<lparr>web3storage_api_token := ''token''\<rparr>\<rparr>" "[1, 2]" test_worker]
    upload_retry_bound [of "test_env\<lparr>config := test_settings\<lparr>web3storage_api_token := ''token''\<rparr>,
                   post := (\<lambda>n b. Inr \<lparr>is_success = False, json = Inr []\<rparr>)\<rparr>" "[1, 2]" test_worker]
  by (simp add: test_env_def test_settings_def)

subsection \<open>Signing keys\<close>

lemma signing_key_prefix:
  assumes "h \<noteq> []" "\<not> startswith h ''0x''"
  shows "signing_key w ev (Some (''0x'' @ h)) = signing_key w ev (Some h)"
  using assms by (simp add: signing_key_def startswith_def)

lemma override_key_prefix:
  assumes "h \<noteq> []" "\<not> startswith h ''0x''"
  shows "generate_signature w ev c e p s (Some (''0x'' @ h)) = generate_signature w ev c e p s (Some h)"
  unfolding generate_signature_def signing_key_prefix [OF assms] ..

text \<open>
  Claim C3. The claim asks that a key written with the \<open>0x\<close> prefix works like the bare
  key, for the identity key of the settings as for an override. The override is handled
  that way (\<open>override_key_prefix\<close>). For the identity key \<open>_init_rpc_helper\<close> cuts the
  prefix from a copy but parses the setting itself: with coincurve's parser the bare key
  \<open>01\<close> is accepted and \<open>0x01\<close> raises \<open>ValueError\<close>, so the worker never starts.
\<close>

theorem identity_key_prefix_rejected:
  "init_rpc_helper test_worker test_env =
     Inr (test_worker\<lparr>private_key := ''01'', identity_private_key := 1\<rparr>) \<and>
   init_rpc_helper test_worker
     (test_env\<lparr>config := test_settings\<lparr>signer_private_key := ''0x01''\<rparr>\<rparr>) = Inl ValueError"
  by (simp add: init_rpc_helper_def test_env_def test_settings_def coincurve_from_hex_def
      hex_digit_def GROUP_ORDER_def startswith_def)

subsection \<open>The signed request\<close>

lemma length_le_bytes: "length (le_bytes n x) = n"
  by (induction n arbitrary: x) simp_all

lemma big_endian_snoc: "big_endian_to_int (bs @ [b]) = 256 * big_endian_to_int bs + unat b"
  by (simp add: big_endian_to_int_def)

lemma big_endian_bound: "big_endian_to_int bs < 256 ^ length bs"
proof (induction bs rule: rev_induct)
  case Nil
  then show ?case by (simp add: big_endian_to_int_def)
next
  case (snoc b bs)
  have "unat b < 256" using unsigned_less [of b, where ?'a = nat] by simp
  with snoc show ?case by (simp add: big_endian_snoc)
qed

lemma le_bytes_big_endian: "le_bytes (length bs) (big_endian_to_int bs) = rev bs"
proof (induction bs rule: rev_induct)
  case Nil
  then show ?case by simp
next
  case (snoc b bs)
  have b: "unat b < 256" using unsigned_less [of b, where ?'a = nat] by simp
  then have m: "unat b mod 256 = unat b"
    and d: "unat b div 256 = 0"
    by simp_all
  show ?case by (simp add: big_endian_snoc m d snoc)
qed

lemma to_bytes_big_endian: "length bs = n \<Longrightarrow> to_bytes (big_endian_to_int bs) n = Inr bs"
  using big_endian_bound [of bs] le_bytes_big_endian [of bs] by (auto simp: to_bytes_def)

lemma big_endian_le_bytes: "big_endian_to_int (rev (le_bytes n x)) = x mod 256 ^ n"
proof (induction n arbitrary: x)
  case 0
  then show ?case by (simp add: big_endian_to_int_def)
next
  case (Suc n)
  have "unat (of_nat (x mod 256) :: byte) = x mod 256"
    by (simp add: unat_of_nat)
  then show ?case
    by (simp add: big_endian_snoc Suc mod_mult2_eq)
qed

lemma to_bytes_one: "v < 256 \<Longrightarrow> to_bytes v 1 = Inr [of_nat v]"
  by (simp add: to_bytes_def)

lemma byte_plus_27: "of_nat (unat (b :: byte) + 27) = b + 27"
  by simp

lemma serialize_signature_Inr:
  "serialize_signature sg =
     (if length sg \<le> 64 then Inl IndexError
      else if 256 \<le> unat (sg ! 64) + 27 then Inl OverflowError
      else Inr (take 32 sg @ take 32 (drop 32 sg) @ [sg ! 64 + 27]))"
proof -
  have r: "64 < length sg \<Longrightarrow> to_bytes (big_endian_to_int (take 32 sg)) 32 = Inr (take 32 sg)"
    by (rule to_bytes_big_endian) simp
  have s: "64 < length sg \<Longrightarrow>
      to_bytes (big_endian_to_int (take 32 (drop 32 sg))) 32 = Inr (take 32 (drop 32 sg))"
    by (rule to_bytes_big_endian) simp
  have v: "unat (sg ! 64) + 27 < 256 \<Longrightarrow>
      to_bytes (unat (sg ! 64) + 27) 1 = Inr [sg ! 64 + 27]"
    using to_bytes_one [of "unat (sg ! 64) + 27"] by (simp add: byte_plus_27)
  have v': "256 \<le> unat (sg ! 64) + 27 \<Longrightarrow> to_bytes (unat (sg ! 64) + 27) 1 = Inl OverflowError"
    by (simp add: to_bytes_def)
  from r s v v' show ?thesis
    by (simp add: serialize_signature_def Let_def not_le)
qed


lemma generate_signature_Inr:
  assumes "generate_signature w ev c e p s k = Inr (req, fs, h)"
  shows "\<exists>blk n sb key.
           eth_get_block ev = Inr blk \<and> py_int16 (number blk) = Inr n \<and> h = hash blk \<and>
           deadline req = n + deadline_buffer (config ev) \<and>
           snapshotCid req = c \<and> epochId req = e \<and> projectId req = p \<and>
           signable_bytes ev req = Inr sb \<and> signing_key w ev k = Inr key \<and>
           serialize_signature (sign_recoverable ev key sb) = Inr fs"
  using assms
  by (auto simp: generate_signature_def Let_def split: sum.splits)

lemma serialize_signature_stub:
  "serialize_signature (replicate 64 x @ [1]) = Inr (replicate 64 x @ [28])"
proof -
  have "replicate 64 x = replicate 32 x @ replicate 32 x"
    by (simp flip: replicate_add)
  then show ?thesis
    by (simp add: serialize_signature_Inr nth_append)
qed

lemma generate_signature_test:
  "generate_signature test_worker (test_env\<lparr>config := test_settings\<lparr>deadline_buffer := d\<rparr>\<rparr>) c e p None None =
     Inr (\<lparr>slotId = 7, deadline = 16 + d, snapshotCid = c, epochId = e, projectId = p\<rparr>,
          replicate 64 1 @ [28], ''0xabc'')"
  by (simp add: generate_signature_def signing_key_def test_env_def test_settings_def
      test_worker_def py_int16_def startswith_def hex_digit_def serialize_signature_stub)

text \<open>
  Claim C6, as amended. Whenever \<open>generate_signature\<close> returns, the deadline of the
  returned request is the block number read from the anchor chain plus the configured
  deadline buffer; it is strictly greater than that block number exactly when the buffer
  is positive. The claim as stated holds the deadline to be strictly greater always: the
  code adds the buffer as configured and never checks its sign, and with a buffer of 0
  at block \<open>0x10\<close> the deadline is 16, the block itself.
\<close>

theorem deadline_block_plus_buffer:
  assumes "generate_signature w ev c e p s k = Inr (req, fs, h)"
  shows "\<exists>blk n. eth_get_block ev = Inr blk \<and> py_int16 (number blk) = Inr n \<and>
           deadline req = n + deadline_buffer (config ev) \<and>
           (n < deadline req \<longleftrightarrow> 0 < deadline_buffer (config ev))"
proof -
  from generate_signature_Inr [OF assms] obtain blk n where
    "eth_get_block ev = Inr blk" "py_int16 (number blk) = Inr n"
    "deadline req = n + deadline_buffer (config ev)" by blast
  then show ?thesis by auto
qed

theorem deadline_block_plus_buffer_witness:
  "generate_signature test_worker (test_env\<lparr>config := test_settings\<lparr>deadline_buffer := 30\<rparr>\<rparr>)
      ''cid'' 5 ''p'' None None =
     Inr (\<lparr>slotId = 7, deadline = 46, snapshotCid = ''cid'', epochId = 5, projectId = ''p''\<rparr>,
          replicate 64 1 @ [28], ''0xabc'') \<and>
   (\<exists>blk n. eth_get_block (test_env\<lparr>config := test_settings\<lparr>deadline_buffer := 30\<rparr>\<rparr>) = Inr blk \<and>
      py_int16 (number blk) = Inr n \<and> 46 = n + 30 \<and> n < 46)"
  using deadline_block_plus_buffer [OF generate_signature_test [of 30 "''cid''" 5 "''p''"]]
    generate_signature_test [of 30 "''cid''" 5 "''p''"]
  by simp

theorem deadline_strictly_greater_counterexample:
  "generate_signature test_worker (test_env\<lparr>config := test_settings\<lparr>deadline_buffer := 0\<rparr>\<rparr>)
      ''cid'' 5 ''p'' None None =
     Inr (\<lparr>slotId = 7, deadline = 16, snapshotCid = ''cid'', epochId = 5, projectId = ''p''\<rparr>,
          replicate 64 1 @ [28], ''0xabc'') \<and>
   eth_get_block (test_env\<lparr>config := test_settings\<lparr>deadline_buffer := 0\<rparr>\<rparr>) =
     Inr \<lparr>number = ''0x10'', hash = ''0xabc''\<rparr> \<and>
   py_int16 ''0x10'' = Inr 16 \<and>
   \<not> 16 < deadline \<lparr>slotId = 7, deadline = 16, snapshotCid = ''cid'', epochId = 5, projectId = ''p''\<rparr>"
  using generate_signature_test [of 0 "''cid''" 5 "''p''"]
  by (simp add: test_env_def py_int16_def startswith_def hex_digit_def)

text \<open>
  Claim C7. Whenever \<open>generate_signature\<close> returns, the serialized signature has 65
  bytes: the first 32 are \<open>r\<close> in big-endian, \<open>r\<close> being the number in bytes 0 to 31 of
  the raw signature, the next 32 are \<open>s\<close> likewise from bytes 32 to 63, and the last byte
  is the raw recovery id plus 27, so 27 or 28 for a raw id of 0 or 1.
\<close>

theorem signature_layout:
  assumes "generate_signature w ev c e p s k = Inr (req, fs, h)"
  shows "\<exists>key sb raw.
           signing_key w ev k = Inr key \<and> signable_bytes ev req = Inr sb \<and>
           raw = sign_recoverable ev key sb \<and>
           length fs = 65 \<and>
           to_bytes (big_endian_to_int (take 32 raw)) 32 = Inr (take 32 fs) \<and>
           to_bytes (big_endian_to_int (take 32 (drop 32 raw))) 32 = Inr (take 32 (drop 32 fs)) \<and>
           to_bytes (unat (raw ! 64) + 27) 1 = Inr (drop 64 fs) \<and>
           unat (fs ! 64) = unat (raw ! 64) + 27 \<and>
           (unat (raw ! 64) \<in> {0, 1} \<longrightarrow> unat (fs ! 64) \<in> {27, 28})"
proof -
  from generate_signature_Inr [OF assms] obtain sb key where
    sb: "signable_bytes ev req = Inr sb" and key: "signing_key w ev k = Inr key"
    and ser: "serialize_signature (sign_recoverable ev key sb) = Inr fs" by blast
  define raw where "raw = sign_recoverable ev key sb"
  from ser have len: "64 < length raw" and v: "unat (raw ! 64) + 27 < 256"
    and fs: "fs = take 32 raw @ take 32 (drop 32 raw) @ [raw ! 64 + 27]"
    by (auto simp: raw_def serialize_signature_Inr split: if_splits)
  from len have l1: "length (take 32 raw) = 32" and l2: "length (take 32 (drop 32 raw)) = 32"
    by simp_all
  have t1: "take 32 fs = take 32 raw" using l1 by (simp add: fs)
  have t2: "take 32 (drop 32 fs) = take 32 (drop 32 raw)" using l1 l2 by (simp add: fs)
  have t3: "drop 64 fs = [raw ! 64 + 27]" using l1 l2 by (simp add: fs)
  have n64: "fs ! 64 = raw ! 64 + 27" using l1 l2 by (simp add: fs nth_append)
  have u: "unat (raw ! 64 + 27) = unat (raw ! 64) + 27"
    using v unat_add_lem [of "raw ! 64" 27] by simp
  have "length fs = 65" using l1 l2 by (simp add: fs)
  moreover have "to_bytes (big_endian_to_int (take 32 raw)) 32 = Inr (take 32 fs)"
    unfolding t1 by (rule to_bytes_big_endian [OF l1])
  moreover have "to_bytes (big_endian_to_int (take 32 (drop 32 raw))) 32 = Inr (take 32 (drop 32 fs))"
    unfolding t2 by (rule to_bytes_big_endian [OF l2])
  moreover have "to_bytes (unat (raw ! 64) + 27) 1 = Inr (drop 64 fs)"
    unfolding t3 using to_bytes_one [OF v] by (simp add: byte_plus_27)
  moreover have "unat (fs ! 64) = unat (raw ! 64) + 27" by (simp add: n64 u)
  ultimately show ?thesis using sb key raw_def by auto
qed

theorem signature_layout_witness:
  "generate_signature test_worker (test_env\<lparr>config := test_settings\<lparr>deadline_buffer := 30\<rparr>\<rparr>)
      ''cid'' 5 ''p'' None None =
     Inr (\<lparr>slotId = 7, deadline = 16 + 30, snapshotCid = ''cid'', epochId = 5, projectId = ''p''\<rparr>,
          replicate 64 1 @ [28], ''0xabc'') \<and>
   (\<exists>raw. length (replicate 64 (1 :: byte) @ [28]) = 65 \<and>
      to_bytes (big_endian_to_int (take 32 raw)) 32 = Inr (take 32 (replicate 64 1 @ [28])) \<and>
      to_bytes (unat (raw ! 64) + 27) 1 = Inr (drop 64 (replicate 64 1 @ [28])) \<and>
      unat ((replicate 64 (1 :: byte) @ [28]) ! 64) = unat (raw ! 64) + 27)"
proof -
  note g = generate_signature_test [of 30 "''cid''" 5 "''p''"]
  from signature_layout [OF g] have
    "\<exists>raw. length (replicate 64 (1 :: byte) @ [28]) = 65 \<and>
      to_bytes (big_endian_to_int (take 32 raw)) 32 = Inr (take 32 (replicate 64 1 @ [28])) \<and>
      to_bytes (unat (raw ! 64) + 27) 1 = Inr (drop 64 (replicate 64 1 @ [28])) \<and>
      unat ((replicate 64 (1 :: byte) @ [28]) ! 64) = unat (raw ! 64) + 27"
    by blast
  with g show ?thesis by (rule conjI)
qed

subsection \<open>The structure of a commit\<close>

text \<open>
  Every step only appends to the trace, an upload appends upload effects and a delivery
  appends delivery effects. A commit therefore ends in one of five ways, told apart by
  where an exception arose and whether a handler \<open>except Exception\<close> caught it.
\<close>

lemma emit_emit: "emit a (emit b w) = emit (b @ a) w"
  by (simp add: emit_def)

lemma status_emit: "status (emit a w) = status w"
  by (simp add: emit_def)

lemma emit_status: "emit a (w\<lparr>status := s\<rparr>) = (emit a w)\<lparr>status := s\<rparr>"
  by (simp add: emit_def)

lemma retrying_events:
  "(\<And>m. list_all P (snd (fn m))) \<Longrightarrow> P (Log WARNING a) \<Longrightarrow> (\<And>h. P (Sleep h)) \<Longrightarrow>
     list_all P (snd (retrying p a fn n))"
proof (induction p a fn n rule: retrying.induct)
  case (1 p a fn n)
  obtain r evs where f: "fn n = (r, evs)" by (cases "fn n")
  with "1.prems"(1) [of n] have evs: "list_all P evs" by simp
  from 1 f evs show ?case
    by (subst retrying.simps) (auto split: prod.splits sum.splits)
qed

lemma upload_snapshot_emit:
  "\<exists>u. snd (upload_snapshot w ev b) = emit u w \<and> list_all upload_event u"
proof (cases "ipfs_url (config ev) = []")
  case True
  then have "snd (upload_snapshot w ev b) = emit [] w"
    by (simp add: upload_snapshot_def emit_def)
  then show ?thesis by (intro exI [of _ "[]"]) simp
next
  case False
  let ?r = "retrying ipfs_policy ''Encountered ipfs upload exception''
              (\<lambda>n. (add_bytes ev n b, [IpfsAddBytes b])) 1"
  have "list_all upload_event (snd ?r)"
    by (rule retrying_events) simp_all
  moreover have "snd (upload_snapshot w ev b) = emit (snd ?r) w"
    using False by (simp add: upload_snapshot_def upload_to_ipfs_def split: prod.splits)
  ultimately show ?thesis by blast
qed

lemma signing_key_emit: "signing_key (emit u w) ev k = signing_key w ev k"
  by (simp add: signing_key_def emit_def split: option.splits)

lemma generate_signature_emit:
  "generate_signature (emit u w) ev c e p s k = generate_signature w ev c e p s k"
  unfolding generate_signature_def signing_key_emit ..

lemma send_handlers_delivery: "list_all delivery_event (send_handlers ev e)"
  by (simp add: send_handlers_def cancel_handlers_def split: option.splits)

lemma send_msg_with_closure_emit:
  "snd (send_msg_with_closure w ev msg sim) =
     emit (added w (snd (send_msg_with_closure w ev msg sim))) w"
  by (simp add: send_msg_with_closure_def Let_def added_def emit_def split: option.splits)

lemma send_msg_with_closure_events:
  "list_all delivery_event (added w (snd (send_msg_with_closure w ev msg sim)))"
  by (simp add: send_msg_with_closure_def Let_def added_emit send_handlers_delivery
      split: option.splits)

lemma send_msg_with_closure_result:
  "fst (send_msg_with_closure w ev msg sim) =
     (case stream_open ev of
        Some e \<Rightarrow> Inl e
      | None \<Rightarrow> (case stream_exit ev of None \<Rightarrow> Inr () | Some e \<Rightarrow> Inl e))"
  by (simp add: send_msg_with_closure_def Let_def split: option.splits)


lemma send_submission_emit:
  "snd (send_submission_to_collector w ev c e p s k) =
     emit (added w (snd (send_submission_to_collector w ev c e p s k))) w"
  by (simp add: send_submission_to_collector_def send_msg_with_closure_def Let_def added_def
      emit_def split: option.splits sum.splits prod.splits)

lemma send_submission_events:
  "list_all delivery_event (added w (snd (send_submission_to_collector w ev c e p s k))) \<and>
   GetBlock \<in> set (added w (snd (send_submission_to_collector w ev c e p s k)))"
  by (simp add: send_submission_to_collector_def send_msg_with_closure_def Let_def added_emit
      emit_emit send_handlers_delivery split: option.splits sum.splits prod.splits)

lemma send_submission_result:
  "fst (send_submission_to_collector w ev c e p s k) =
     (case generate_signature w ev c e p s k of
        Inl x \<Rightarrow> Inl x
      | Inr y \<Rightarrow>
          if stream_open ev = Some CancelledError \<or>
             (stream_open ev = None \<and> stream_exit ev = Some CancelledError)
          then Inl CancelledError else Inr ())"
  by (simp add: send_submission_to_collector_def send_msg_with_closure_def Let_def
      is_Exception_def split: option.splits sum.splits prod.splits)

lemma report_missed_snapshot_eq:
  "report_missed_snapshot w ev p ep e =
     (emit [Notify (missed_report w ev p ep e)] w)\<lparr>status := missed (status w)\<rparr>"
  by (simp add: report_missed_snapshot_def send_failure_notifications_async_def emit_def
      missed_report_def missed_def Let_def)

lemma record_success_eq: "record_success w = w\<lparr>status := succeeded (status w)\<rparr>"
  by (simp add: record_success_def succeeded_def Let_def)

lemma upload_events_quiet:
  "list_all upload_event u \<Longrightarrow>
     notifications u = [] \<and> GetBlock \<notin> set u \<and> filter is_EnsureFuture u = []"
proof (induction u)
  case Nil
  then show ?case by (simp add: notifications_def)
next
  case (Cons a u)
  then show ?case by (cases a) (auto simp: notifications_def)
qed

lemma delivery_events_quiet:
  "list_all delivery_event d \<Longrightarrow> notifications d = [] \<and> filter is_EnsureFuture d = []"
proof (induction d)
  case Nil
  then show ?case by (simp add: notifications_def)
next
  case (Cons a d)
  then show ?case by (cases a) (auto simp: notifications_def)
qed

lemma notifications_append: "notifications (a @ b) = notifications a @ notifications b"
  by (simp add: notifications_def)

lemma commit_payload_cases:
  fixes w ev task p ep snap flag
  defines "b \<equiv> encode_utf8 (dumps snap)"
  defines "fut \<equiv> (if flag then [EnsureFuture b] else [])"
  obtains
    (upload_aborted) e u where
      "commit_payload w ev task p ep snap flag = (Inl e, emit u w)"
      "fst (upload_snapshot w ev b) = Inl e" "\<not> is_Exception e" "list_all upload_event u"
  | (upload_failed) e u where
      "commit_payload w ev task p ep snap flag =
         (Inl UnboundLocalError,
          (emit (u @ [Log ERROR ''Exception uploading snapshot to IPFS'',
                      Notify (missed_report w ev p ep e)] @ fut) w)
            \<lparr>status := missed (status w)\<rparr>)"
      "fst (upload_snapshot w ev b) = Inl e" "is_Exception e" "list_all upload_event u"
  | (submit_aborted) cid e u d where
      "commit_payload w ev task p ep snap flag = (Inl e, emit (u @ d) w)"
      "fst (upload_snapshot w ev b) = Inr cid"
      "fst (send_submission_to_collector w ev cid ep p None None) = Inl e"
      "\<not> is_Exception e" "list_all upload_event u" "list_all delivery_event d" "GetBlock \<in> set d"
  | (submit_failed) cid e u d where
      "commit_payload w ev task p ep snap flag =
         (Inr cid,
          (emit (u @ d @ [Log ERROR ''Exception submitting snapshot to collector'',
                          Notify (missed_report w ev p ep e)] @ fut) w)
            \<lparr>status := missed (status w)\<rparr>)"
      "fst (upload_snapshot w ev b) = Inr cid"
      "fst (send_submission_to_collector w ev cid ep p None None) = Inl e"
      "is_Exception e" "list_all upload_event u" "list_all delivery_event d" "GetBlock \<in> set d"
  | (success) cid u d where
      "commit_payload w ev task p ep snap flag =
         (Inr cid, (emit (u @ d @ fut) w)\<lparr>status := succeeded (status w)\<rparr>)"
      "fst (upload_snapshot w ev b) = Inr cid"
      "fst (send_submission_to_collector w ev cid ep p None None) = Inr ()"
      "list_all upload_event u" "list_all delivery_event d" "GetBlock \<in> set d"
proof -
  obtain r1 w1 where up: "upload_snapshot w ev b = (r1, w1)" by (cases "upload_snapshot w ev b")
  from upload_snapshot_emit [of w ev b] obtain u where
    w1: "w1 = emit u w" and u: "list_all upload_event u" by (auto simp: up)
  show thesis
  proof (cases r1)
    case (Inl e)
    show thesis
    proof (cases "is_Exception e")
      case True
      have "commit_payload w ev task p ep snap flag =
         (Inl UnboundLocalError,
          (emit (u @ [Log ERROR ''Exception uploading snapshot to IPFS'',
                      Notify (missed_report w ev p ep e)] @ fut) w)
            \<lparr>status := missed (status w)\<rparr>)"
        using up Inl True
        by (simp add: commit_payload_def b_def [symmetric] w1 commit_epilogue_def
            report_missed_snapshot_eq emit_emit status_emit fut_def emit_status missed_report_def)
      moreover have "fst (upload_snapshot w ev b) = Inl e" using up Inl by simp
      ultimately show thesis using True u by (rule upload_failed)
    next
      case False
      have "commit_payload w ev task p ep snap flag = (Inl e, emit u w)"
        using up Inl False by (simp add: commit_payload_def b_def [symmetric] w1)
      moreover have "fst (upload_snapshot w ev b) = Inl e" using up Inl by simp
      ultimately show thesis using False u by (rule upload_aborted)
    qed
  next
    case (Inr cid)
    obtain r2 w2 where sub: "send_submission_to_collector w1 ev cid ep p None None = (r2, w2)"
      by (cases "send_submission_to_collector w1 ev cid ep p None None")
    define d where "d = added w1 w2"
    from send_submission_emit [of w1 ev cid ep p None None] have w2: "w2 = emit d w1"
      by (simp add: sub d_def)
    from send_submission_events [of w1 ev cid ep p None None]
    have dd: "list_all delivery_event d" and gb: "GetBlock \<in> set d"
      by (simp_all add: sub d_def)
    have "fst (send_submission_to_collector w ev cid ep p None None) =
          fst (send_submission_to_collector w1 ev cid ep p None None)"
      by (simp only: send_submission_result w1 generate_signature_emit)
    then have res: "fst (send_submission_to_collector w ev cid ep p None None) = r2"
      by (simp add: sub)
    have fup: "fst (upload_snapshot w ev b) = Inr cid" using up Inr by simp
    show thesis
    proof (cases r2)
      case (Inl e)
      show thesis
      proof (cases "is_Exception e")
        case True
        have "commit_payload w ev task p ep snap flag =
           (Inr cid,
            (emit (u @ d @ [Log ERROR ''Exception submitting snapshot to collector'',
                            Notify (missed_report w ev p ep e)] @ fut) w)
              \<lparr>status := missed (status w)\<rparr>)"
          using up Inr sub Inl True
          by (simp add: commit_payload_def b_def [symmetric] w1 w2 commit_epilogue_def
              report_missed_snapshot_eq emit_emit status_emit fut_def emit_status missed_report_def)
        then show thesis using fup res [unfolded Inl] True u dd gb
          by (rule submit_failed)
      next
        case False
        have "commit_payload w ev task p ep snap flag = (Inl e, emit (u @ d) w)"
          using up Inr sub Inl False
          by (simp add: commit_payload_def b_def [symmetric] w1 w2 emit_emit)
        then show thesis using fup res [unfolded Inl] False u dd gb
          by (rule submit_aborted)
      qed
    next
      case (Inr x)
      have eq: "commit_payload w ev task p ep snap flag =
           (Inr cid, (emit (u @ d @ fut) w)\<lparr>status := succeeded (status w)\<rparr>)"
        using up \<open>r1 = Inr cid\<close> sub Inr
        by (simp add: commit_payload_def b_def [symmetric] w1 w2 commit_epilogue_def
            record_success_eq emit_emit status_emit fut_def emit_status)
      have sres: "fst (send_submission_to_collector w ev cid ep p None None) = Inr ()"
        using res Inr by simp
      show thesis by (rule success [OF eq fup sres u dd gb])
    qed
  qed
qed

subsection \<open>Failure accounting\<close>

lemma status_distinct:
  "missed st \<noteq> st \<and> succeeded st \<noteq> st \<and> missed st \<noteq> succeeded st"
proof -
  have "totalMissedSubmissions (missed st) \<noteq> totalMissedSubmissions st"
    by (simp add: missed_def)
  moreover have "totalSuccessfulSubmissions (succeeded st) \<noteq> totalSuccessfulSubmissions st"
    by (simp add: succeeded_def)
  moreover have "totalMissedSubmissions (missed st) \<noteq> totalMissedSubmissions (succeeded st)"
    by (simp add: missed_def succeeded_def)
  ultimately show ?thesis by metis
qed

lemma added_emit_status: "added w ((emit evs w)\<lparr>status := s\<rparr>) = evs"
  by (simp add: added_def emit_def)

lemma notifications_simps:
  "notifications [] = []"
  "notifications (Notify m # evs) = m # notifications evs"
  "notifications (Log l t # evs) = notifications evs"
  "notifications (EnsureFuture b # evs) = notifications evs"
  by (simp_all add: notifications_def)

lemma commit_upload_failed:
  assumes "fst (upload_snapshot w ev (encode_utf8 (dumps snap))) = Inl e" "is_Exception e"
  shows "fst (commit_payload w ev task p ep snap flag) = Inl UnboundLocalError \<and>
         status (snd (commit_payload w ev task p ep snap flag)) = missed (status w) \<and>
         notifications (added w (snd (commit_payload w ev task p ep snap flag))) =
           [missed_report w ev p ep e] \<and>
         GetBlock \<notin> set (added w (snd (commit_payload w ev task p ep snap flag)))"
proof (cases rule: commit_payload_cases
    [where w = w and ev = ev and task = task and p = p and ep = ep and snap = snap and flag = flag])
  case (upload_failed e' u)
  then show ?thesis
    using assms upload_events_quiet [of u]
    by (simp add: added_emit_status notifications_append notifications_simps)
qed (use assms in simp_all)

lemma commit_submit_aborted:
  assumes "fst (upload_snapshot w ev (encode_utf8 (dumps snap))) = Inr cid"
    "fst (send_submission_to_collector w ev cid ep p None None) = Inl e" "\<not> is_Exception e"
  shows "fst (commit_payload w ev task p ep snap flag) = Inl e \<and>
         status (snd (commit_payload w ev task p ep snap flag)) = status w \<and>
         notifications (added w (snd (commit_payload w ev task p ep snap flag))) = []"
proof (cases rule: commit_payload_cases
    [where w = w and ev = ev and task = task and p = p and ep = ep and snap = snap and flag = flag])
  case (submit_aborted cid' e' u d)
  then show ?thesis
    using assms upload_events_quiet [of u] delivery_events_quiet [of d]
    by (simp add: added_emit status_emit notifications_append)
qed (use assms in simp_all)

lemma commit_success:
  assumes "fst (upload_snapshot w ev (encode_utf8 (dumps snap))) = Inr cid"
    "fst (send_submission_to_collector w ev cid ep p None None) = Inr ()"
  shows "fst (commit_payload w ev task p ep snap flag) = Inr cid \<and>
         status (snd (commit_payload w ev task p ep snap flag)) = succeeded (status w) \<and>
         notifications (added w (snd (commit_payload w ev task p ep snap flag))) = []"
proof (cases rule: commit_payload_cases
    [where w = w and ev = ev and task = task and p = p and ep = ep and snap = snap and flag = flag])
  case (success cid' u d)
  then show ?thesis
    using assms upload_events_quiet [of u] delivery_events_quiet [of d]
    by (simp add: added_emit_status notifications_append notifications_simps)
qed (use assms in simp_all)

lemma upload_snapshot_local:
  "ipfs_url (config ev) = [] \<Longrightarrow> upload_snapshot w ev b = (Inr (cid_sha256_hash ev b), w)"
  by (simp add: upload_snapshot_def)

lemma generate_signature_test_env:
  assumes "config ev = test_settings" "eth_get_block ev = eth_get_block test_env"
    "signable_bytes ev = signable_bytes test_env" "sign_recoverable ev = sign_recoverable test_env"
  shows "generate_signature test_worker ev c e p None None =
     Inr (\<lparr>slotId = 7, deadline = 46, snapshotCid = c, epochId = e, projectId = p\<rparr>,
          replicate 64 1 @ [28], ''0xabc'')"
  using assms
  by (simp add: generate_signature_def signing_key_def test_env_def test_settings_def
      test_worker_def py_int16_def startswith_def hex_digit_def serialize_signature_stub)

text \<open>
  Claim C10, as amended. In every commit at most one failure notification is sent, and
  the commit ends in exactly one of four ways: an exception that no handler catches (a
  cancellation) leaves the method with the counters untouched and nothing reported; the
  upload fails, both miss counters go up by one, one notification is sent and the
  submission is not started; the submission fails, with the same accounting after the
  submission was started; or the commit succeeds, the success counter goes up by one and
  the consecutive misses are set to 0, with no notification. The three changes of the
  counters differ pairwise and from no change, so no commit records two of them. The
  claim as stated has one of the last three in every invocation; a commit that is
  cancelled while the anchor chain block is fetched records none of them.
\<close>

theorem commit_one_outcome:
  "length (notifications (added w (snd (commit_payload w ev task p ep snap flag)))) \<le> 1 \<and>
   ((\<exists>e. fst (commit_payload w ev task p ep snap flag) = Inl e \<and> \<not> is_Exception e) \<and>
      status (snd (commit_payload w ev task p ep snap flag)) = status w \<and>
      notifications (added w (snd (commit_payload w ev task p ep snap flag))) = []
    \<or>
    status (snd (commit_payload w ev task p ep snap flag)) = missed (status w) \<and>
      length (notifications (added w (snd (commit_payload w ev task p ep snap flag)))) = 1 \<and>
      GetBlock \<notin> set (added w (snd (commit_payload w ev task p ep snap flag)))
    \<or>
    status (snd (commit_payload w ev task p ep snap flag)) = missed (status w) \<and>
      length (notifications (added w (snd (commit_payload w ev task p ep snap flag)))) = 1 \<and>
      GetBlock \<in> set (added w (snd (commit_payload w ev task p ep snap flag)))
    \<or>
    status (snd (commit_payload w ev task p ep snap flag)) = succeeded (status w) \<and>
      notifications (added w (snd (commit_payload w ev task p ep snap flag))) = [] \<and>
      GetBlock \<in> set (added w (snd (commit_payload w ev task p ep snap flag)))) \<and>
   missed (status w) \<noteq> status w \<and> succeeded (status w) \<noteq> status w \<and>
   missed (status w) \<noteq> succeeded (status w)"
proof (cases rule: commit_payload_cases
    [where w = w and ev = ev and task = task and p = p and ep = ep and snap = snap and flag = flag])
  case (upload_aborted e u)
  then show ?thesis
    using upload_events_quiet [of u] status_distinct [of "status w"]
    by (simp add: added_emit status_emit)
next
  case (upload_failed e u)
  then show ?thesis
    using upload_events_quiet [of u] status_distinct [of "status w"]
    by (simp add: added_emit_status notifications_append notifications_simps)
next
  case (submit_aborted cid e u d)
  then show ?thesis
    using upload_events_quiet [of u] delivery_events_quiet [of d] status_distinct [of "status w"]
    by (simp add: added_emit status_emit notifications_append)
next
  case (submit_failed cid e u d)
  then show ?thesis
    using upload_events_quiet [of u] delivery_events_quiet [of d] status_distinct [of "status w"]
    by (simp add: added_emit_status notifications_append notifications_simps)
next
  case (success cid u d)
  then show ?thesis
    using upload_events_quiet [of u] delivery_events_quiet [of d] status_distinct [of "status w"]
    by (simp add: added_emit_status notifications_append notifications_simps)
qed


theorem cancelled_commit_counterexample:
  "fst (commit_payload test_worker (test_env\<lparr>eth_get_block := Inl CancelledError\<rparr>)
         ''task'' ''project'' 5 (JDict [(''a'', JInt 1)]) False) = Inl CancelledError \<and>
   status (snd (commit_payload test_worker (test_env\<lparr>eth_get_block := Inl CancelledError\<rparr>)
         ''task'' ''project'' 5 (JDict [(''a'', JInt 1)]) False)) =
     \<lparr>totalSuccessfulSubmissions = 3, totalMissedSubmissions = 2,
      consecutiveMissedSubmissions = 1\<rparr> \<and>
   status test_worker =
     \<lparr>totalSuccessfulSubmissions = 3, totalMissedSubmissions = 2,
      consecutiveMissedSubmissions = 1\<rparr> \<and>
   notifications (trace (snd (commit_payload test_worker
         (test_env\<lparr>eth_get_block := Inl CancelledError\<rparr>)
         ''task'' ''project'' 5 (JDict [(''a'', JInt 1)]) False))) = []"
proof -
  let ?ev = "test_env\<lparr>eth_get_block := Inl CancelledError\<rparr>"
  let ?snap = "JDict [(''a'', JInt 1)]"
  let ?cid = "cid_sha256_hash test_env (encode_utf8 (dumps ?snap))"
  have up: "fst (upload_snapshot test_worker ?ev (encode_utf8 (dumps ?snap))) = Inr ?cid"
    by (simp add: upload_snapshot_def test_env_def test_settings_def)
  have sub: "fst (send_submission_to_collector test_worker ?ev ?cid 5 ''project'' None None) =
      Inl CancelledError"
    by (simp add: send_submission_result generate_signature_def)
  have ex: "\<not> is_Exception CancelledError" by (simp add: is_Exception_def)
  from commit_submit_aborted [OF up sub ex, of "''task''" False]
  show ?thesis
    by (simp add: test_worker_def added_def)
qed

text \<open>
  Claim C1. The claim asks that a commit whose delivery to the collector fails records a
  failure. In the code \<open>_send_msg_with_closure\<close> and \<open>_send_submission_to_collector\<close>
  catch and log every delivery error, so the handler in \<open>_commit_payload\<close> that records
  the failure never sees it: with a connection reset on \<open>send_message\<close> the commit
  returns the content id, counts a success (3 to 4), resets the consecutive misses (1 to
  0), leaves the total misses at 2 and sends no notification.
\<close>

theorem delivery_failure_recorded_as_success:
  "fst (commit_payload test_worker (test_env\<lparr>send_message := Some ConnectionResetError\<rparr>)
         ''task'' ''project'' 5 (JDict [(''a'', JInt 1)]) False) =
     Inr (cid_sha256_hash test_env (encode_utf8 (dumps (JDict [(''a'', JInt 1)])))) \<and>
   status (snd (commit_payload test_worker (test_env\<lparr>send_message := Some ConnectionResetError\<rparr>)
         ''task'' ''project'' 5 (JDict [(''a'', JInt 1)]) False)) =
     \<lparr>totalSuccessfulSubmissions = 4, totalMissedSubmissions = 2,
      consecutiveMissedSubmissions = 0\<rparr> \<and>
   notifications (trace (snd (commit_payload test_worker
         (test_env\<lparr>send_message := Some ConnectionResetError\<rparr>)
         ''task'' ''project'' 5 (JDict [(''a'', JInt 1)]) False))) = []"
proof -
  let ?ev = "test_env\<lparr>send_message := Some ConnectionResetError\<rparr>"
  let ?snap = "JDict [(''a'', JInt 1)]"
  let ?cid = "cid_sha256_hash test_env (encode_utf8 (dumps ?snap))"
  have up: "fst (upload_snapshot test_worker ?ev (encode_utf8 (dumps ?snap))) = Inr ?cid"
    by (simp add: upload_snapshot_def test_env_def test_settings_def)
  have g: "generate_signature test_worker ?ev ?cid 5 ''project'' None None =
     Inr (\<lparr>slotId = 7, deadline = 46, snapshotCid = ?cid, epochId = 5, projectId = ''project''\<rparr>,
          replicate 64 1 @ [28], ''0xabc'')"
    by (rule generate_signature_test_env) (simp_all add: test_env_def)
  have sub: "fst (send_submission_to_collector test_worker ?ev ?cid 5 ''project'' None None) = Inr ()"
    unfolding send_submission_result g by (simp add: test_env_def)
  from commit_success [OF up sub, of "''task''" False]
  show ?thesis
    by (simp add: succeeded_def test_worker_def added_def)
qed

text \<open>
  Claim C2. The claim asks that a commit whose upload fails still returns a content id or
  an upload-failure indicator. In the code the failure is recorded (one notification,
  both miss counters up by one, no submission), and then \<open>return snapshot_cid\<close> reads a
  local that was never bound: the commit raises \<open>UnboundLocalError\<close>.
\<close>

theorem upload_failure_raises_unbound_local:
  "fst (commit_payload test_worker
         (test_env\<lparr>config := test_settings\<lparr>ipfs_url := ''http://ipfs:5001''\<rparr>,
                   add_bytes := (\<lambda>n b. Inl IPFSAsyncClientError)\<rparr>)
         ''task'' ''project'' 5 (JDict [(''a'', JInt 1)]) True) = Inl UnboundLocalError \<and>
   status (snd (commit_payload test_worker
         (test_env\<lparr>config := test_settings\<lparr>ipfs_url := ''http://ipfs:5001''\<rparr>,
                   add_bytes := (\<lambda>n b. Inl IPFSAsyncClientError)\<rparr>)
         ''task'' ''project'' 5 (JDict [(''a'', JInt 1)]) True)) =
     \<lparr>totalSuccessfulSubmissions = 3, totalMissedSubmissions = 3,
      consecutiveMissedSubmissions = 2\<rparr> \<and>
   length (notifications (trace (snd (commit_payload test_worker
         (test_env\<lparr>config := test_settings\<lparr>ipfs_url := ''http://ipfs:5001''\<rparr>,
                   add_bytes := (\<lambda>n b. Inl IPFSAsyncClientError)\<rparr>)
         ''task'' ''project'' 5 (JDict [(''a'', JInt 1)]) True)))) = 1 \<and>
   GetBlock \<notin> set (trace (snd (commit_payload test_worker
         (test_env\<lparr>config := test_settings\<lparr>ipfs_url := ''http://ipfs:5001''\<rparr>,
                   add_bytes := (\<lambda>n b. Inl IPFSAsyncClientError)\<rparr>)
         ''task'' ''project'' 5 (JDict [(''a'', JInt 1)]) True)))"
proof -
  let ?ev = "test_env\<lparr>config := test_settings\<lparr>ipfs_url := ''http://ipfs:5001''\<rparr>,
                   add_bytes := (\<lambda>n b. Inl IPFSAsyncClientError)\<rparr>"
  let ?snap = "JDict [(''a'', JInt 1)]"
  have "add_bytes ?ev 1 (encode_utf8 (dumps ?snap)) = Inl IPFSAsyncClientError" by simp
  from ipfs_excluded [OF this, of test_worker]
  have up: "fst (upload_snapshot test_worker ?ev (encode_utf8 (dumps ?snap))) = Inl IPFSAsyncClientError"
    by (simp add: upload_snapshot_def test_settings_def)
  have ex: "is_Exception IPFSAsyncClientError" by (simp add: is_Exception_def)
  from commit_upload_failed [OF up ex, of "''task''" "''project''" 5 True]
  show ?thesis
    by (simp add: missed_def test_worker_def added_def)
qed

subsection \<open>Failures of the stream\<close>

lemma transport_failure_events:
  assumes "stream_open ev = None" "e = ConnectionResetError \<or> e = GRPCError"
    "send_message ev = Some e \<or> send_message ev = None \<and> recv_message ev = Some e"
  shows "\<exists>pre. added w (snd (send_msg_with_closure w ev msg sim)) =
           pre @ [Log ERROR ''Probable grpc failure to send snapshot'', StreamCancel 10]
               @ cancel_handlers (wait_for (stream_cancel ev) 10) @ [StreamExit]"
  using assms
  by (auto simp: send_msg_with_closure_def Let_def added_emit send_handlers_def
      split: option.splits)

lemma cancelled_send_events:
  assumes "stream_open ev = None"
    "send_message ev = Some CancelledError \<or>
     send_message ev = None \<and> recv_message ev = Some CancelledError"
  shows "\<exists>pre. added w (snd (send_msg_with_closure w ev msg sim)) =
           pre @ [Log INFO ''Task to send snapshot to local collector was asyncio cancelled'',
                  StreamExit]"
  using assms
  by (auto simp: send_msg_with_closure_def Let_def added_emit send_handlers_def
      split: option.splits)

lemma commit_no_failure_report:
  assumes up: "fst (upload_snapshot w ev (encode_utf8 (dumps snap))) = Inr cid"
    and g: "generate_signature w ev cid ep p None None = Inr y"
  shows "notifications (added w (snd (commit_payload w ev task p ep snap flag))) = [] \<and>
         totalMissedSubmissions (status (snd (commit_payload w ev task p ep snap flag))) =
           totalMissedSubmissions (status w)"
proof (cases "fst (send_submission_to_collector w ev cid ep p None None)")
  case (Inl e)
  then have e: "e = CancelledError"
    by (simp add: send_submission_result g split: if_splits)
  then have "\<not> is_Exception e" by (simp add: is_Exception_def)
  from commit_submit_aborted [OF up Inl this, of task flag] show ?thesis by simp
next
  case (Inr u)
  then have "fst (send_submission_to_collector w ev cid ep p None None) = Inr ()" by simp
  from commit_success [OF up this, of task flag] show ?thesis by (simp add: succeeded_def)
qed

text \<open>
  Claim C9. When \<open>send_message\<close> or \<open>recv_message\<close> raises \<open>ConnectionResetError\<close> or
  \<open>GRPCError\<close> on an open stream, \<open>_send_msg_with_closure\<close> cancels the stream under
  \<open>wait_for\<close> with a timeout of 10 seconds; a cancel that runs longer, that was itself
  cancelled or that raises anything else is logged, and the method returns what it would
  have returned with any other behaviour of the cancel: normally, unless leaving the
  stream raises. When the exception is \<open>CancelledError\<close> the method logs it and returns
  the same way, and a commit whose upload and signature succeeded then sends no failure
  notification and leaves the total of missed submissions as it was.
\<close>

theorem stream_failure_handling:
  "(stream_open ev = None \<and> (e = ConnectionResetError \<or> e = GRPCError) \<and>
    (send_message ev = Some e \<or> send_message ev = None \<and> recv_message ev = Some e) \<longrightarrow>
      StreamCancel 10 \<in> set (added w (snd (send_msg_with_closure w ev msg sim))) \<and>
      fst (send_msg_with_closure w ev msg sim) =
        (case stream_exit ev of None \<Rightarrow> Inr () | Some x \<Rightarrow> Inl x) \<and>
      fst (send_msg_with_closure w (ev\<lparr>stream_cancel := c\<rparr>) msg sim) =
        fst (send_msg_with_closure w ev msg sim) \<and>
      (10 < fst (stream_cancel ev) \<longrightarrow>
         Log ERROR ''Timeout in cancelling stream''
           \<in> set (added w (snd (send_msg_with_closure w ev msg sim)))) \<and>
      (fst (stream_cancel ev) \<le> 10 \<and> snd (stream_cancel ev) = Some CancelledError \<longrightarrow>
         Log INFO ''Stream was already cancelled''
           \<in> set (added w (snd (send_msg_with_closure w ev msg sim)))) \<and>
      (fst (stream_cancel ev) \<le> 10 \<and> snd (stream_cancel ev) = Some x \<and>
       x \<noteq> TimeoutError \<and> x \<noteq> CancelledError \<longrightarrow>
         Log ERROR ''Probable exception in cancelling stream''
           \<in> set (added w (snd (send_msg_with_closure w ev msg sim))))) \<and>
   (stream_open ev = None \<and>
    (send_message ev = Some CancelledError \<or>
     send_message ev = None \<and> recv_message ev = Some CancelledError) \<longrightarrow>
      Log INFO ''Task to send snapshot to local collector was asyncio cancelled''
        \<in> set (added w (snd (send_msg_with_closure w ev msg sim))) \<and>
      fst (send_msg_with_closure w ev msg sim) =
        (case stream_exit ev of None \<Rightarrow> Inr () | Some x \<Rightarrow> Inl x) \<and>
      (fst (upload_snapshot w ev (encode_utf8 (dumps snap))) = Inr cid \<and>
       generate_signature w ev cid ep p None None = Inr y \<longrightarrow>
         notifications (added w (snd (commit_payload w ev task p ep snap flag))) = [] \<and>
         totalMissedSubmissions (status (snd (commit_payload w ev task p ep snap flag))) =
           totalMissedSubmissions (status w)))"
proof (intro conjI impI)
  assume a: "stream_open ev = None \<and> (e = ConnectionResetError \<or> e = GRPCError) \<and>
    (send_message ev = Some e \<or> send_message ev = None \<and> recv_message ev = Some e)"
  then obtain pre where ev: "added w (snd (send_msg_with_closure w ev msg sim)) =
           pre @ [Log ERROR ''Probable grpc failure to send snapshot'', StreamCancel 10]
               @ cancel_handlers (wait_for (stream_cancel ev) 10) @ [StreamExit]"
    using transport_failure_events [of ev e w msg sim] by blast
  show "StreamCancel 10 \<in> set (added w (snd (send_msg_with_closure w ev msg sim)))"
    by (simp add: ev)
  show "fst (send_msg_with_closure w ev msg sim) =
        (case stream_exit ev of None \<Rightarrow> Inr () | Some x \<Rightarrow> Inl x)"
    using a by (simp add: send_msg_with_closure_result)
  show "fst (send_msg_with_closure w (ev\<lparr>stream_cancel := c\<rparr>) msg sim) =
        fst (send_msg_with_closure w ev msg sim)"
    by (simp add: send_msg_with_closure_result split: option.splits)
  {
    assume "10 < fst (stream_cancel ev)"
    then show "Log ERROR ''Timeout in cancelling stream''
           \<in> set (added w (snd (send_msg_with_closure w ev msg sim)))"
      by (simp add: ev wait_for_def cancel_handlers_def)
  }
  {
    assume "fst (stream_cancel ev) \<le> 10 \<and> snd (stream_cancel ev) = Some CancelledError"
    then show "Log INFO ''Stream was already cancelled''
           \<in> set (added w (snd (send_msg_with_closure w ev msg sim)))"
      by (simp add: ev wait_for_def cancel_handlers_def)
  }
  {
    assume "fst (stream_cancel ev) \<le> 10 \<and> snd (stream_cancel ev) = Some x \<and>
       x \<noteq> TimeoutError \<and> x \<noteq> CancelledError"
    then show "Log ERROR ''Probable exception in cancelling stream''
           \<in> set (added w (snd (send_msg_with_closure w ev msg sim)))"
      by (simp add: ev wait_for_def cancel_handlers_def)
  }
next
  assume a: "stream_open ev = None \<and>
    (send_message ev = Some CancelledError \<or>
     send_message ev = None \<and> recv_message ev = Some CancelledError)"
  then obtain pre where ev: "added w (snd (send_msg_with_closure w ev msg sim)) =
           pre @ [Log INFO ''Task to send snapshot to local collector was asyncio cancelled'',
                  StreamExit]"
    using cancelled_send_events [of ev w msg sim] by blast
  show "Log INFO ''Task to send snapshot to local collector was asyncio cancelled''
        \<in> set (added w (snd (send_msg_with_closure w ev msg sim)))"
    by (simp add: ev)
  show "fst (send_msg_with_closure w ev msg sim) =
        (case stream_exit ev of None \<Rightarrow> Inr () | Some x \<Rightarrow> Inl x)"
    using a by (simp add: send_msg_with_closure_result)
  {
    assume "fst (upload_snapshot w ev (encode_utf8 (dumps snap))) = Inr cid \<and>
       generate_signature w ev cid ep p None None = Inr y"
    then have up: "fst (upload_snapshot w ev (encode_utf8 (dumps snap))) = Inr cid"
      and g: "generate_signature w ev cid ep p None None = Inr y" by simp_all
    from commit_no_failure_report [OF up g, of task flag]
    show "notifications (added w (snd (commit_payload w ev task p ep snap flag))) = []"
      and "totalMissedSubmissions (status (snd (commit_payload w ev task p ep snap flag))) =
           totalMissedSubmissions (status w)" by simp_all
  }
qed


theorem stream_failure_handling_witness:
  "StreamCancel 10 \<in> set (added test_worker (snd (send_msg_with_closure test_worker
       (test_env\<lparr>send_message := Some ConnectionResetError, stream_cancel := (11, None)\<rparr>)
       \<lparr>request = \<lparr>slotId = 7, deadline = 46, snapshotCid = ''c'', epochId = 5, projectId = ''p''\<rparr>,
        signature = ''00'', header = ''0xabc''\<rparr> False))) \<and>
   fst (send_msg_with_closure test_worker
       (test_env\<lparr>send_message := Some ConnectionResetError, stream_cancel := (11, None)\<rparr>)
       \<lparr>request = \<lparr>slotId = 7, deadline = 46, snapshotCid = ''c'', epochId = 5, projectId = ''p''\<rparr>,
        signature = ''00'', header = ''0xabc''\<rparr> False) = Inr () \<and>
   Log ERROR ''Timeout in cancelling stream'' \<in> set (added test_worker (snd (send_msg_with_closure
       test_worker
       (test_env\<lparr>send_message := Some ConnectionResetError, stream_cancel := (11, None)\<rparr>)
       \<lparr>request = \<lparr>slotId = 7, deadline = 46, snapshotCid = ''c'', epochId = 5, projectId = ''p''\<rparr>,
        signature = ''00'', header = ''0xabc''\<rparr> False))) \<and>
   notifications (added test_worker (snd (commit_payload test_worker
       (test_env\<lparr>recv_message := Some CancelledError\<rparr>)
       ''task'' ''project'' 5 (JDict [(''a'', JInt 1)]) False))) = []"
proof -
  let ?e1 = "test_env\<lparr>send_message := Some ConnectionResetError, stream_cancel := (11, None)\<rparr>"
  let ?e2 = "test_env\<lparr>recv_message := Some CancelledError\<rparr>"
  let ?m = "\<lparr>request = \<lparr>slotId = 7, deadline = 46, snapshotCid = ''c'', epochId = 5, projectId = ''p''\<rparr>,
        signature = ''00'', header = ''0xabc''\<rparr>"
  let ?snap = "JDict [(''a'', JInt 1)]"
  let ?cid = "cid_sha256_hash test_env (encode_utf8 (dumps ?snap))"
  have h1: "stream_open ?e1 = None" "send_message ?e1 = Some ConnectionResetError"
    "stream_exit ?e1 = None" "fst (stream_cancel ?e1) = 11"
    by (simp_all add: test_env_def)
  have h2: "stream_open ?e2 = None" "send_message ?e2 = None"
    "recv_message ?e2 = Some CancelledError"
    by (simp_all add: test_env_def)
  have up: "fst (upload_snapshot test_worker ?e2 (encode_utf8 (dumps ?snap))) = Inr ?cid"
    by (simp add: upload_snapshot_def test_env_def test_settings_def)
  have g: "generate_signature test_worker ?e2 ?cid 5 ''project'' None None =
     Inr (\<lparr>slotId = 7, deadline = 46, snapshotCid = ?cid, epochId = 5, projectId = ''project''\<rparr>,
          replicate 64 1 @ [28], ''0xabc'')"
    by (rule generate_signature_test_env) (simp_all add: test_env_def)
  from stream_failure_handling [where ev = ?e1 and e = ConnectionResetError and w = test_worker
      and msg = ?m and sim = False] h1
  have a: "StreamCancel 10 \<in> set (added test_worker (snd (send_msg_with_closure test_worker ?e1 ?m False)))"
    and b: "fst (send_msg_with_closure test_worker ?e1 ?m False) = Inr ()"
    and c: "Log ERROR ''Timeout in cancelling stream''
       \<in> set (added test_worker (snd (send_msg_with_closure test_worker ?e1 ?m False)))"
    by simp_all
  from stream_failure_handling [where ev = ?e2 and w = test_worker and snap = ?snap
      and cid = ?cid and ep = 5 and p = "''project''" and task = "''task''" and flag = False,
      THEN conjunct2] h2 up g
  have d: "notifications (added test_worker (snd (commit_payload test_worker ?e2
       ''task'' ''project'' 5 ?snap False))) = []"
    by simp
  from a b c d show ?thesis by simp
qed

subsection \<open>The archival upload\<close>















subsection \<open>Canonical bytes and the content id\<close>

lemma insort_key_map_fst:
  assumes "\<And>x. fst (h x) = fst x"
  shows "insort_key fst (h x) (map h xs) = map h (insort_key fst x xs)"
  by (induction xs) (simp_all add: assms)

lemma sort_key_map_fst:
  assumes "\<And>x. fst (h x) = fst x"
  shows "sort_key fst (map h xs) = map h (sort_key fst xs)"
  by (induction xs) (simp_all add: insort_key_map_fst [OF assms])

lemma assoc_rebuild:
  "distinct (map fst l) \<Longrightarrow> map (\<lambda>k. (k, the (map_of l k))) (map fst l) = l"
proof (induction l)
  case Nil
  then show ?case by simp
next
  case (Cons kv l)
  then have "\<And>k. k \<in> set (map fst l) \<Longrightarrow> k \<noteq> fst kv" by force
  then have "map (\<lambda>k. (k, the (map_of (kv # l) k))) (map fst l) =
             map (\<lambda>k. (k, the (map_of l k))) (map fst l)"
    by (intro map_cong) auto
  with Cons show ?case by simp
qed

lemma sorted_assoc_unique:
  assumes "sorted (map fst l1)" "distinct (map fst l1)"
    "sorted (map fst l2)" "distinct (map fst l2)" "set l1 = set l2"
  shows "l1 = l2"
proof -
  have "set (map fst l1) = set (map fst l2)" using assms(5) by simp
  with assms have keys: "map fst l1 = map fst l2"
    by (intro sorted_distinct_set_unique)
  have "map_of l1 = map_of l2"
    using assms by (simp add: map_of_inject_set)
  with keys assoc_rebuild [OF assms(2)] assoc_rebuild [OF assms(4)] show ?thesis
    by simp
qed

lemma sort_key_assoc_unique:
  assumes "distinct (map fst l1)" "distinct (map fst l2)" "set l1 = set l2"
  shows "sort_key fst l1 = sort_key fst l2"
proof (rule sorted_assoc_unique)
  show "sorted (map fst (sort_key fst l1))" "sorted (map fst (sort_key fst l2))"
    by simp_all
  show "distinct (map fst (sort_key fst l1))"
    using assms(1) by (simp add: distinct_map)
  show "distinct (map fst (sort_key fst l2))"
    using assms(2) by (simp add: distinct_map)
  show "set (sort_key fst l1) = set (sort_key fst l2)"
    using assms(3) by simp
qed

lemma subset_same_length_eq:
  assumes "distinct (map fst l1)" "distinct (map fst l2)" "length l1 = length l2"
    "set l1 \<subseteq> set l2"
  shows "set l1 = set l2"
proof -
  have d1: "distinct l1" and d2: "distinct l2"
    using assms(1,2) by (simp_all add: distinct_map)
  then have "card (set l1) = card (set l2)"
    using assms(3) by (simp add: distinct_card)
  with assms(4) show ?thesis
    by (intro card_subset_eq) simp_all
qed

lemma dict_items_equal:
  assumes d1: "distinct (map fst kvs)" and d2: "distinct (map fst kvs')"
    and len: "length kvs = length kvs'"
    and each: "\<And>kv. kv \<in> set kvs \<Longrightarrow>
                 \<exists>v'. map_of kvs' (fst kv) = Some v' \<and> g (snd kv) = g v'"
  shows "map (\<lambda>kv. (fst kv, g (snd kv))) (sort_key fst kvs) =
         map (\<lambda>kv. (fst kv, g (snd kv))) (sort_key fst kvs')"
proof -
  let ?h = "\<lambda>kv. (fst kv, g (snd kv))"
  have k: "map fst (map ?h kvs) = map fst kvs" "map fst (map ?h kvs') = map fst kvs'"
    by (simp_all add: comp_def)
  have sub: "set (map ?h kvs) \<subseteq> set (map ?h kvs')"
  proof
    fix x assume "x \<in> set (map ?h kvs)"
    then obtain kv where kv: "kv \<in> set kvs" "x = ?h kv" by auto
    from each [OF kv(1)] obtain v' where
      v': "map_of kvs' (fst kv) = Some v'" "g (snd kv) = g v'" by blast
    from map_of_SomeD [OF v'(1)] have "(fst kv, v') \<in> set kvs'" .
    then have "?h (fst kv, v') \<in> ?h ` set kvs'" by (rule imageI)
    then have "(fst kv, g v') \<in> set (map ?h kvs')" by simp
    then show "x \<in> set (map ?h kvs')" using kv(2) v'(2) by simp
  qed
  have "set (map ?h kvs) = set (map ?h kvs')"
    by (rule subset_same_length_eq) (simp_all only: k d1 d2 length_map len sub)
  then have "sort_key fst (map ?h kvs) = sort_key fst (map ?h kvs')"
    by (intro sort_key_assoc_unique) (simp_all only: k d1 d2)
  then show ?thesis by (simp add: sort_key_map_fst)
qed

lemma join_items:
  "map (\<lambda>kv. encode_basestring_ascii (fst kv) @ '':'' @ dumps (snd kv)) l =
   map (\<lambda>ks. encode_basestring_ascii (fst ks) @ '':'' @ snd ks)
     (map (\<lambda>kv. (fst kv, dumps (snd kv))) l)"
  by simp

lemma dumps_same_content:
  "wf_jvalue a \<Longrightarrow> wf_jvalue b \<Longrightarrow> same_content a b \<Longrightarrow> dumps a = dumps b"
proof (induction a b rule: same_content.induct)
  case (5 xs ys)
  from "5.prems" have "list_all2 same_content xs ys" "list_all wf_jvalue xs" "list_all wf_jvalue ys"
    by simp_all
  then have "map dumps xs = map dumps ys"
    using "5.IH"
  proof (induction xs ys rule: list_all2_induct)
    case Nil
    then show ?case by simp
  next
    case (Cons x xs y ys)
    then show ?case by simp
  qed
  then show ?case by simp
next
  case (6 kvs kvs')
  from "6.prems" have d1: "distinct (map fst kvs)" and d2: "distinct (map fst kvs')"
    and w1: "list_all (\<lambda>kv. wf_jvalue (snd kv)) kvs"
    and w2: "list_all (\<lambda>kv. wf_jvalue (snd kv)) kvs'"
    and len: "length kvs = length kvs'"
    and all: "list_all (\<lambda>kv. case map_of kvs' (fst kv) of
                        None \<Rightarrow> False
                      | Some v' \<Rightarrow> same_content (snd kv) v') kvs"
    by simp_all
  have each: "\<exists>v'. map_of kvs' (fst kv) = Some v' \<and> dumps (snd kv) = dumps v'"
    if kv: "kv \<in> set kvs" for kv
  proof -
    from all kv obtain v' where v': "map_of kvs' (fst kv) = Some v'" "same_content (snd kv) v'"
      by (auto simp: list_all_iff split: option.splits)
    from map_of_SomeD [OF v'(1)] w2 have "wf_jvalue v'"
      by (auto simp: list_all_iff)
    moreover from w1 kv have "wf_jvalue (snd kv)" by (simp add: list_all_iff)
    ultimately have "dumps (snd kv) = dumps v'"
      using "6.IH" [OF kv v'(1)] v'(2) by simp
    with v'(1) show ?thesis by blast
  qed
  from dict_items_equal [OF d1 d2 len each]
  have "map (\<lambda>kv. (fst kv, dumps (snd kv))) (sort_key fst kvs) =
        map (\<lambda>kv. (fst kv, dumps (snd kv))) (sort_key fst kvs')" by simp
  then show ?case by (simp only: dumps.simps join_items)
qed simp_all


lemma commit_payload_dumps:
  "dumps a = dumps b \<Longrightarrow>
     commit_payload w ev task p ep a flag = commit_payload w ev task p ep b flag"
  by (simp add: commit_payload_def)

lemma commit_local_content_id:
  assumes "ipfs_url (config ev) = []" "fst (commit_payload w ev task p ep a flag) = Inr c"
  shows "c = cid_sha256_hash ev (encode_utf8 (dumps a))"
  using assms
  by (auto simp: commit_payload_def upload_snapshot_def commit_epilogue_def Let_def
      split: prod.splits sum.splits if_splits)

lemma dumps_example:
  "dumps (JDict [(''b'', JInt 2), (''a'', JInt 1)]) =
     ''{'' @ [CHR 0x22] @ ''a'' @ [CHR 0x22] @ '':1,'' @ [CHR 0x22] @ ''b'' @ [CHR 0x22] @ '':2}''"
  by (simp add: encode_basestring_ascii_def escape_char_def str_int_def)

text \<open>
  Claim C5. Two payloads with the same content, whatever the order of the entries of
  their dicts, are serialized to the same text, so commits of the two return the same
  value. Without an IPFS URL the upload step computes the content id locally from the
  bytes and leaves the worker as it was, without a single call to IPFS, so a second
  upload of the same bytes gives the same id again, and the content id that a commit
  returns is the local hash of the canonical bytes.
\<close>

theorem canonical_content_id:
  assumes "wf_jvalue a" "wf_jvalue b" "same_content a b"
  shows "dumps a = dumps b \<and>
         fst (commit_payload w ev task p ep a flag) = fst (commit_payload w ev task p ep b flag) \<and>
         (ipfs_url (config ev) = [] \<longrightarrow>
            upload_snapshot w ev bs = (Inr (cid_sha256_hash ev bs), w) \<and>
            upload_snapshot (snd (upload_snapshot w ev bs)) ev bs = upload_snapshot w ev bs \<and>
            (\<forall>c. fst (commit_payload w ev task p ep a flag) = Inr c \<longrightarrow>
                 c = cid_sha256_hash ev (encode_utf8 (dumps b))))"
proof -
  have eq: "dumps a = dumps b" by (rule dumps_same_content [OF assms])
  have "fst (commit_payload w ev task p ep a flag) = fst (commit_payload w ev task p ep b flag)"
    by (simp add: commit_payload_dumps [OF eq])
  moreover have "upload_snapshot w ev bs = (Inr (cid_sha256_hash ev bs), w)"
    if "ipfs_url (config ev) = []"
    using that by (simp add: upload_snapshot_def)
  moreover have "c = cid_sha256_hash ev (encode_utf8 (dumps b))"
    if "ipfs_url (config ev) = []" "fst (commit_payload w ev task p ep a flag) = Inr c" for c
    using commit_local_content_id [OF that] eq by simp
  ultimately show ?thesis using eq by simp
qed

theorem canonical_content_id_witness:
  "dumps (JDict [(''b'', JInt 2), (''a'', JInt 1)]) = dumps (JDict [(''a'', JInt 1), (''b'', JInt 2)]) \<and>
   fst (commit_payload test_worker test_env ''task'' ''project'' 5
          (JDict [(''b'', JInt 2), (''a'', JInt 1)]) False) =
   fst (commit_payload test_worker test_env ''task'' ''project'' 5
          (JDict [(''a'', JInt 1), (''b'', JInt 2)]) False) \<and>
   upload_snapshot test_worker test_env [1, 2] =
     (Inr (cid_sha256_hash test_env [1, 2]), test_worker)"
proof -
  have w1: "wf_jvalue (JDict [(''b'', JInt 2), (''a'', JInt 1)])"
    and w2: "wf_jvalue (JDict [(''a'', JInt 1), (''b'', JInt 2)])"
    and sc: "same_content (JDict [(''b'', JInt 2), (''a'', JInt 1)])
                          (JDict [(''a'', JInt 1), (''b'', JInt 2)])"
    by simp_all
  have u: "ipfs_url (config test_env) = []" by (simp add: test_env_def test_settings_def)
  from canonical_content_id [OF w1 w2 sc, of test_worker test_env "''task''" "''project''" 5 False
      "[1, 2]"] u
  show ?thesis by simp
qed

end
